theory Spec2Isabelle
  imports Complex_Main "HOL-Library.Multiset"
begin

section \<open>Data model (src/types.ts)\<close>

text \<open>
  JavaScript numbers are modelled as exact rationals; \<open>undefined\<close> and \<open>NaN\<close> are the
  \<open>None\<close> of an option. A \<open>Date\<close> is its time value \<open>getTime()\<close>, the milliseconds since
  the epoch, as an integer (the Invalid Date is not a value of the model). Strings are lists of
  code units.
\<close>

datatype TradeDirection = Long | Short

datatype TradeStatus = StatusOpen | StatusClosed

text \<open>
  The fields of a trade but \<open>id\<close> and \<open>status\<close>. The type of \<open>date\<close> is a parameter: a
  \<open>Date\<close> in the ledger, a string in a backup file (\<open>BackupData\<close>).
\<close>

record 'd TradeFields =
  date :: 'd
  asset :: string
  direction :: TradeDirection
  entryPrice :: rat
  exitPrice :: "rat option"
  size' :: rat
  pnl :: "rat option"
  journal :: string
  analysis :: "string option"
  stopLoss :: "rat option"
  takeProfit :: "rat option"
  leverage :: "string option"

record 'd TradeRecord = "'d TradeFields" +
  id' :: int
  status :: TradeStatus

text \<open>\<open>Omit<Trade, 'id' | 'status'>\<close>: what the forms hand to the ledger.\<close>

type_synonym TradeInput = "int TradeFields"

type_synonym Trade = "int TradeRecord"

type_synonym BackupTrade = "string TradeRecord"

record Strategy =
  id_s :: string
  name :: string
  content :: string

section \<open>Strings and numbers of the platform\<close>

text \<open>
  The library functions the source calls, on code units below 256. \<open>parseInt\<close> and
  \<open>parseFloat\<close> read the longest prefix that is a number and give \<open>NaN\<close> (\<open>None\<close>) when
  there is none; the values are exact, so rounding to a double, overflow and the literal
  \<open>Infinity\<close> are outside the model.
\<close>

definition isDigit :: "char \<Rightarrow> bool" where
  "isDigit c = (let n = (of_char c :: nat) in 48 \<le> n \<and> n \<le> 57)"

definition digitVal :: "char \<Rightarrow> nat" where
  "digitVal c = of_char c - 48"

definition natOfDigits :: "string \<Rightarrow> nat" where
  "natOfDigits ds = foldl (\<lambda>a c. 10 * a + digitVal c) 0 ds"

definition isWhiteSpace :: "char \<Rightarrow> bool" where
  "isWhiteSpace c = ((of_char c :: nat) \<in> {9, 10, 11, 12, 13, 32, 160})"

definition trim :: "string \<Rightarrow> string" where
  "trim s = rev (dropWhile isWhiteSpace (rev (dropWhile isWhiteSpace s)))"

definition toLowerChar :: "char \<Rightarrow> char" where
  "toLowerChar c =
     (let n = (of_char c :: nat)
      in if (65 \<le> n \<and> n \<le> 90) \<or> (192 \<le> n \<and> n \<le> 222 \<and> n \<noteq> 215)
         then char_of (n + 32) else c)"

definition toLowerCase :: "string \<Rightarrow> string" where
  "toLowerCase s = map toLowerChar s"

fun startsWith :: "string \<Rightarrow> string \<Rightarrow> bool" where
  "startsWith s [] = True"
| "startsWith [] (p # ps) = False"
| "startsWith (c # cs) (p # ps) = (c = p \<and> startsWith cs ps)"

text \<open>\<open>s.includes(needle)\<close>\<close>

fun includesStr :: "string \<Rightarrow> string \<Rightarrow> bool" where
  "includesStr [] needle = (needle = [])"
| "includesStr (c # cs) needle = (startsWith (c # cs) needle \<or> includesStr cs needle)"

text \<open>\<open>s.split(sep)\<close> for a separator of one code unit out of a class; never empty.\<close>

fun splitOn :: "(char \<Rightarrow> bool) \<Rightarrow> string \<Rightarrow> string list" where
  "splitOn p [] = [[]]"
| "splitOn p (c # cs) =
     (if p c then [] # splitOn p cs
      else (case splitOn p cs of [] \<Rightarrow> [[c]] | x # xs \<Rightarrow> (c # x) # xs))"

text \<open>\<open>parts.join(',')\<close>\<close>

fun joinWith :: "char \<Rightarrow> string list \<Rightarrow> string" where
  "joinWith sep [] = []"
| "joinWith sep [x] = x"
| "joinWith sep (x # y # ys) = x @ sep # joinWith sep (y # ys)"

text \<open>\<open>s.lastIndexOf(c)\<close>: \<open>-1\<close> when \<open>c\<close> does not occur.\<close>

definition lastIndexOf :: "string \<Rightarrow> char \<Rightarrow> int" where
  "lastIndexOf s c = fold (\<lambda>(i, x) acc. if x = c then int i else acc) (enumerate 0 s) (- 1)"

text \<open>\<open>s.replace(a, b)\<close> with a string pattern replaces the first occurrence only.\<close>

fun replaceFirst :: "char \<Rightarrow> char \<Rightarrow> string \<Rightarrow> string" where
  "replaceFirst a b [] = []"
| "replaceFirst a b (c # cs) = (if c = a then b # cs else c # replaceFirst a b cs)"

definition takeSign :: "string \<Rightarrow> bool \<times> string" where
  "takeSign s = (case s of
       [] \<Rightarrow> (False, [])
     | c # r \<Rightarrow> if c = CHR ''-'' then (True, r) else if c = CHR ''+'' then (False, r) else (False, s))"

text \<open>\<open>parseInt(s, 10)\<close>\<close>

definition parseInt :: "string \<Rightarrow> int option" where
  "parseInt s =
     (let (neg, s2) = takeSign (dropWhile isWhiteSpace s);
          ds = takeWhile isDigit s2
      in if ds = [] then None
         else Some (if neg then - int (natOfDigits ds) else int (natOfDigits ds)))"

text \<open>The exponent part of a decimal literal, read only when it has a digit.\<close>

definition takeExponent :: "string \<Rightarrow> int" where
  "takeExponent r = (case r of
       [] \<Rightarrow> 0
     | c # r1 \<Rightarrow>
         if c = CHR ''e'' \<or> c = CHR ''E'' then
           (let (neg, r2) = takeSign r1; ds = takeWhile isDigit r2
            in if ds = [] then 0 else if neg then - int (natOfDigits ds) else int (natOfDigits ds))
         else 0)"

definition takeFraction :: "string \<Rightarrow> string \<times> string" where
  "takeFraction r = (case r of
       [] \<Rightarrow> ([], [])
     | c # t \<Rightarrow> if c = CHR ''.'' then (takeWhile isDigit t, dropWhile isDigit t) else ([], r))"

text \<open>The value of a decimal literal: sign, integer digits, fraction digits, exponent.\<close>

definition decimalValue :: "bool \<Rightarrow> string \<Rightarrow> string \<Rightarrow> int \<Rightarrow> rat" where
  "decimalValue neg ip fp e =
     (let m = of_nat (natOfDigits ip) + of_nat (natOfDigits fp) / 10 ^ length fp;
          v = (if e < 0 then m / 10 ^ nat (- e) else m * 10 ^ nat e)
      in if neg then - v else v)"

text \<open>\<open>parseFloat(s)\<close>: white space, a sign, digits, a point and digits, an exponent.\<close>

definition parseFloat :: "string \<Rightarrow> rat option" where
  "parseFloat s =
     (let (neg, s2) = takeSign (dropWhile isWhiteSpace s);
          ip = takeWhile isDigit s2;
          (fp, r2) = takeFraction (dropWhile isDigit s2)
      in if ip = [] \<and> fp = [] then None
         else Some (decimalValue neg ip fp (takeExponent r2)))"

text \<open>A number is truthy when it is neither \<open>undefined\<close>, \<open>NaN\<close> nor zero.\<close>

definition truthy :: "rat option \<Rightarrow> bool" where
  "truthy v = (case v of None \<Rightarrow> False | Some x \<Rightarrow> x \<noteq> 0)"

text \<open>\<open>x > 0\<close> on a number: false on \<open>undefined\<close> and \<open>NaN\<close>.\<close>

definition positive :: "rat option \<Rightarrow> bool" where
  "positive v = (case v of None \<Rightarrow> False | Some x \<Rightarrow> x > 0)"

text \<open>\<open>x || undefined\<close> on a number.\<close>

definition orUndefined :: "rat option \<Rightarrow> rat option" where
  "orUndefined v = (if truthy v then v else None)"

text \<open>\<open>x || 0\<close> on a number.\<close>

definition orZero :: "rat option \<Rightarrow> rat" where
  "orZero v = (case v of None \<Rightarrow> 0 | Some x \<Rightarrow> x)"

text \<open>\<open>String(n)\<close> on a natural number.\<close>

definition digitChar :: "nat \<Rightarrow> char" where
  "digitChar n = ''0123456789'' ! n"

fun showNat :: "nat \<Rightarrow> string" where
  "showNat n = (if n < 10 then [digitChar n] else showNat (n div 10) @ [digitChar (n mod 10)])"

declare showNat.simps [simp del]

subsection \<open>Dates\<close>

text \<open>
  \<open>Date.UTC(year, month, day)\<close> after the language standard: \<open>DayFromYear\<close>, \<open>MakeDay\<close>
  (a month index outside 0..11 carries into the year, a day outside the month carries into
  the next months), \<open>TimeClip\<close>. An argument that is \<open>NaN\<close> gives \<open>NaN\<close>.
\<close>

definition DayFromYear :: "int \<Rightarrow> int" where
  "DayFromYear y =
     365 * (y - 1970) + (y - 1969) div 4 - (y - 1901) div 100 + (y - 1601) div 400"

definition InLeapYear :: "int \<Rightarrow> bool" where
  "InLeapYear y = (y mod 4 = 0 \<and> (y mod 100 \<noteq> 0 \<or> y mod 400 = 0))"

definition daysBeforeMonth :: "int \<Rightarrow> bool \<Rightarrow> int" where
  "daysBeforeMonth m leap =
     [0, 31, 59, 90, 120, 151, 181, 212, 243, 273, 304, 334] ! nat m
     + (if leap \<and> 2 \<le> m then 1 else 0)"

definition MakeDay :: "int \<Rightarrow> int \<Rightarrow> int \<Rightarrow> int" where
  "MakeDay year month dt =
     (let ym = year + month div 12; mn = month mod 12
      in DayFromYear ym + daysBeforeMonth mn (InLeapYear ym) + dt - 1)"

definition msPerDay :: int where
  "msPerDay = 86400000"

definition TimeClip :: "int \<Rightarrow> int option" where
  "TimeClip t = (if \<bar>t\<bar> > 8640000000000000 then None else Some t)"

definition DateUTC :: "int option \<Rightarrow> int option \<Rightarrow> int option \<Rightarrow> int option" where
  "DateUTC year month dt =
     (case (year, month, dt) of
        (Some y, Some m, Some d) \<Rightarrow>
          (let yr = (if 0 \<le> y \<and> y \<le> 99 then 1900 + y else y)
           in TimeClip (MakeDay yr m d * msPerDay))
      | _ \<Rightarrow> None)"

text \<open>The days of a month of the calendar (month 1..12).\<close>

definition daysInMonth :: "int \<Rightarrow> int \<Rightarrow> int" where
  "daysInMonth y m =
     (if m = 2 then (if InLeapYear y then 29 else 28)
      else if m = 4 \<or> m = 6 \<or> m = 9 \<or> m = 11 then 30 else 31)"

text \<open>\<open>d.setUTCHours(0, 0, 0, 0)\<close> and \<open>d.setUTCHours(23, 59, 59, 999)\<close> on a time value.\<close>

definition startOfUTCDay :: "int \<Rightarrow> int" where
  "startOfUTCDay t = t - t mod msPerDay"

definition endOfUTCDay :: "int \<Rightarrow> int" where
  "endOfUTCDay t = startOfUTCDay t + (msPerDay - 1)"

subsection \<open>ISO strings of dates\<close>

text \<open>
  \<open>toISOString\<close> is fixed by the language standard: the civil date of the day number, then
  the time of day, as \<open>YYYY-MM-DDTHH:mm:ss.sssZ\<close> (a year outside 0..9999 has a sign and six
  digits). What the \<open>Date\<close> constructor makes of an arbitrary string is left to the platform
  and is a parameter \<open>dateOfString\<close> of the functions that call it (\<open>None\<close> is the Invalid
  Date); \<open>dateOfISOString\<close> is that constructor on the two ISO forms the application
  writes itself, \<open>YYYY-MM-DD\<close> and \<open>YYYY-MM-DDTHH:mm:ss.sssZ\<close>.
\<close>

definition yearOfEra :: "int \<Rightarrow> int" where
  "yearOfEra doe = (doe - doe div 1460 + doe div 36524 - doe div 146096) div 365"

definition dayOfYear :: "int \<Rightarrow> int \<Rightarrow> int" where
  "dayOfYear doe yoe = doe - (365 * yoe + yoe div 4 - yoe div 100)"

definition civilOfMonth :: "int \<Rightarrow> int \<Rightarrow> int \<Rightarrow> int \<times> int \<times> int" where
  "civilOfMonth y doy mp =
     (if mp < 10 then (y, mp + 3, doy - (153 * mp + 2) div 5 + 1)
      else (y + 1, mp - 9, doy - (153 * mp + 2) div 5 + 1))"

definition civilOfYear :: "int \<Rightarrow> int \<Rightarrow> int \<Rightarrow> int \<times> int \<times> int" where
  "civilOfYear era yoe doy = civilOfMonth (yoe + era * 400) doy ((5 * doy + 2) div 153)"

definition civilOfEra :: "int \<Rightarrow> int \<Rightarrow> int \<times> int \<times> int" where
  "civilOfEra era doe = civilOfYear era (yearOfEra doe) (dayOfYear doe (yearOfEra doe))"

text \<open>The civil date \<open>(year, month, day)\<close> of a day number, the days counted in eras of 400 years from 1 March 0000.\<close>

definition civilFromDays :: "int \<Rightarrow> int \<times> int \<times> int" where
  "civilFromDays z = civilOfEra ((z + 719468) div 146097) ((z + 719468) mod 146097)"

definition padNat :: "nat \<Rightarrow> nat \<Rightarrow> string" where
  "padNat w n = replicate (w - length (showNat n)) (CHR ''0'') @ showNat n"

definition isoYear :: "int \<Rightarrow> string" where
  "isoYear y =
     (if 0 \<le> y \<and> y \<le> 9999 then padNat 4 (nat y)
      else (if y < 0 then ''-'' else ''+'') @ padNat 6 (nat \<bar>y\<bar>))"

definition isoOfParts :: "int \<times> int \<times> int \<Rightarrow> int \<Rightarrow> string" where
  "isoOfParts ymd r =
     (case ymd of (y, m, d) \<Rightarrow>
        isoYear y @ ''-'' @ padNat 2 (nat m) @ ''-'' @ padNat 2 (nat d) @ ''T''
        @ padNat 2 (nat (r div 3600000)) @ '':'' @ padNat 2 (nat (r div 60000 mod 60))
        @ '':'' @ padNat 2 (nat (r div 1000 mod 60)) @ ''.'' @ padNat 3 (nat (r mod 1000))
        @ ''Z'')"

definition toISOString :: "int \<Rightarrow> string" where
  "toISOString t = isoOfParts (civilFromDays (t div msPerDay)) (t mod msPerDay)"

text \<open>\<open>iso.split('T')[0]\<close>\<close>

definition isoDay :: "string \<Rightarrow> string" where
  "isoDay str = takeWhile (\<lambda>c. c \<noteq> CHR ''T'') str"

definition fixedDigits :: "string \<Rightarrow> nat option" where
  "fixedDigits s = (if s \<noteq> [] \<and> list_all isDigit s then Some (natOfDigits s) else None)"

definition isoCivil :: "string \<Rightarrow> int option" where
  "isoCivil s =
     (if length s = 10 \<and> s ! 4 = CHR ''-'' \<and> s ! 7 = CHR ''-'' then
        (case (fixedDigits (take 4 s), fixedDigits (take 2 (drop 5 s)),
               fixedDigits (take 2 (drop 8 s))) of
           (Some y, Some m, Some d) \<Rightarrow>
             if 1 \<le> m \<and> m \<le> 12 \<and> 1 \<le> d \<and> int d \<le> daysInMonth (int y) (int m)
             then Some (MakeDay (int y) (int m - 1) (int d) * msPerDay) else None
         | _ \<Rightarrow> None)
      else None)"

definition isoTime :: "string \<Rightarrow> int option" where
  "isoTime s =
     (if length s = 14 \<and> s ! 0 = CHR ''T'' \<and> s ! 3 = CHR '':'' \<and> s ! 6 = CHR '':''
         \<and> s ! 9 = CHR ''.'' \<and> s ! 13 = CHR ''Z'' then
        (case (fixedDigits (take 2 (drop 1 s)), fixedDigits (take 2 (drop 4 s)),
               fixedDigits (take 2 (drop 7 s)), fixedDigits (take 3 (drop 10 s))) of
           (Some h, Some mi, Some sec, Some ms) \<Rightarrow>
             if h < 24 \<and> mi < 60 \<and> sec < 60
             then Some (int h * 3600000 + int mi * 60000 + int sec * 1000 + int ms) else None
         | _ \<Rightarrow> None)
      else None)"

definition dateOfISOString :: "string \<Rightarrow> int option" where
  "dateOfISOString s =
     (case isoCivil (take 10 s) of
        None \<Rightarrow> None
      | Some dayStart \<Rightarrow>
          if length s = 10 then Some dayStart
          else map_option (\<lambda>tm. dayStart + tm) (isoTime (drop 10 s)))"

section \<open>Trade ledger (src/App.tsx)\<close>

text \<open>The object spread \<open>{...trade, id: n, status: s}\<close>.\<close>

definition withIdStatus :: "TradeInput \<Rightarrow> int \<Rightarrow> TradeStatus \<Rightarrow> Trade" where
  "withIdStatus trade n s =
     \<lparr>date = date trade, asset = asset trade, direction = direction trade,
      entryPrice = entryPrice trade, exitPrice = exitPrice trade, size' = size' trade,
      pnl = pnl trade, journal = journal trade, analysis = analysis trade,
      stopLoss = stopLoss trade, takeProfit = takeProfit trade, leverage = leverage trade,
      id' = n, status = s\<rparr>"

text \<open>
  \<open>xs.sort((a, b) => a.date.getTime() - b.date.getTime())\<close>: the sort of an array is
  stable, and on integer keys the comparator is a total preorder, so the result is the stable
  sort by the key.
\<close>

definition sortByDate :: "Trade list \<Rightarrow> Trade list" where
  "sortByDate ts = sort_key date ts"

text \<open>\<open>sorted.map((t, index) => ({...t, id: index + 1}))\<close>\<close>

definition renumber :: "Trade list \<Rightarrow> Trade list" where
  "renumber ts = map (\<lambda>(index, t). t\<lparr>id' := int index + 1\<rparr>) (enumerate 0 ts)"

definition getNextId :: "Trade list \<Rightarrow> int" where
  "getNextId currentTrades =
     (if length currentTrades = 0 then 1
      else fold max (map id' currentTrades) (id' (hd currentTrades)) + 1)"

definition handleOpenTrade :: "TradeInput \<Rightarrow> Trade list \<Rightarrow> Trade list" where
  "handleOpenTrade trade prev =
     (let nextId = getNextId prev;
          newTrade = withIdStatus trade nextId StatusOpen;
          sorted = sortByDate (prev @ [newTrade])
      in renumber sorted)"

definition handleAddCompleteTrade :: "TradeInput \<Rightarrow> Trade list \<Rightarrow> Trade list" where
  "handleAddCompleteTrade trade prev =
     (let nextId = getNextId prev;
          pnl0 = (case exitPrice trade of
                    None \<Rightarrow> 0
                  | Some exit \<Rightarrow>
                      if truthy (Some exit) then
                        (if direction trade = Long then (exit - entryPrice trade) * size' trade
                         else (entryPrice trade - exit) * size' trade)
                      else 0);
          newTrade = (withIdStatus trade nextId StatusClosed)\<lparr>pnl := Some pnl0\<rparr>;
          sorted = sortByDate (prev @ [newTrade])
      in renumber sorted)"

definition handleUpdateTrade :: "Trade \<Rightarrow> Trade list \<Rightarrow> Trade list" where
  "handleUpdateTrade updatedTrade prev =
     (let updated = map (\<lambda>t. if id' t = id' updatedTrade then updatedTrade else t) prev;
          sorted = sortByDate updated
      in renumber sorted)"

definition handleConfirmDelete :: "int \<Rightarrow> Trade list \<Rightarrow> Trade list" where
  "handleConfirmDelete n prev =
     (let remainingTrades = filter (\<lambda>trade. id' trade \<noteq> n) prev
      in renumber (sortByDate remainingTrades))"

text \<open>
  \<open>handleImportFromGoogleSheet\<close>: the imported rows (\<open>Omit<Trade, 'id'>\<close>) carry a status
  and no id. The final map gives every element of the combined array, old or new, its position
  as id and the status \<open>closed\<close>.
\<close>

definition handleImportFromGoogleSheet ::
  "(TradeInput \<times> TradeStatus) list \<Rightarrow> Trade list \<Rightarrow> Trade list" where
  "handleImportFromGoogleSheet newTrades prev =
     (if length newTrades > 0 then
        (let combined = prev @ map (\<lambda>(t, s). withIdStatus t 0 s) newTrades;
             sorted = sortByDate combined
         in map (\<lambda>t. t\<lparr>status := StatusClosed\<rparr>) (renumber sorted))
      else prev)"

section \<open>Backup and restore (src/components/SyncModal.tsx, src/App.tsx)\<close>

text \<open>
  The parsed backup file. \<open>JSON.parse\<close> gives a value of any shape, so every top-level field
  is optional here: \<open>None\<close> stands for a field that is missing or not of the type
  \<open>isValidBackup\<close> asks for (for \<open>activeStrategyId\<close>, which is not validated, for
  \<open>null\<close> or a missing field).
\<close>

record BackupData =
  bTrades :: "BackupTrade list option"
  bInitialCapital :: "rat option"
  bStrategies :: "Strategy list option"
  bActiveStrategyId :: "string option"
  bTimestamp :: "string option"

record LedgerState =
  trades :: "Trade list"
  initialCapital :: rat
  strategies :: "Strategy list"
  activeStrategyId :: "string option"

text \<open>\<open>{...t, date: new Date(t.date).toISOString()}\<close>\<close>

definition backupTrade :: "Trade \<Rightarrow> BackupTrade" where
  "backupTrade t =
     \<lparr>date = toISOString (date t), asset = asset t, direction = direction t,
      entryPrice = entryPrice t, exitPrice = exitPrice t, size' = size' t,
      pnl = pnl t, journal = journal t, analysis = analysis t,
      stopLoss = stopLoss t, takeProfit = takeProfit t, leverage = leverage t,
      id' = id' t, status = status t\<rparr>"

text \<open>
  \<open>handleCreateBackup\<close>: the object handed to \<open>JSON.stringify\<close>, which \<open>JSON.parse\<close>
  reads back as it is. \<open>now\<close> is the clock's \<open>new Date()\<close>.
\<close>

definition handleCreateBackup :: "int \<Rightarrow> LedgerState \<Rightarrow> BackupData" where
  "handleCreateBackup now s =
     \<lparr>bTrades = Some (map backupTrade (trades s)),
      bInitialCapital = Some (initialCapital s),
      bStrategies = Some (strategies s),
      bActiveStrategyId = activeStrategyId s,
      bTimestamp = Some (toISOString now)\<rparr>"

definition isValidBackup :: "BackupData \<Rightarrow> bool" where
  "isValidBackup d =
     (bTrades d \<noteq> None \<and> bInitialCapital d \<noteq> None \<and> bStrategies d \<noteq> None
      \<and> bTimestamp d \<noteq> None)"

text \<open>\<open>{...t, id: index + 1, date: new Date(t.date)}\<close>, the date already read.\<close>

definition restoredTrade :: "nat \<Rightarrow> BackupTrade \<Rightarrow> int \<Rightarrow> Trade" where
  "restoredTrade index t d =
     \<lparr>date = d, asset = asset t, direction = direction t,
      entryPrice = entryPrice t, exitPrice = exitPrice t, size' = size' t,
      pnl = pnl t, journal = journal t, analysis = analysis t,
      stopLoss = stopLoss t, takeProfit = takeProfit t, leverage = leverage t,
      id' = int index + 1, status = status t\<rparr>"

text \<open>
  \<open>InvalidBackupFormat\<close> is the alert of \<open>handleRestore\<close>. \<open>InvalidDateInBackup\<close> is not
  an error of the source: a date string the platform cannot read makes an Invalid Date, which
  the source stores and this model has no value for.
\<close>

datatype RestoreError = InvalidBackupFormat | InvalidDateInBackup

text \<open>
  \<open>handleRestore\<close>, once the file is read and parsed and the user has confirmed:
  \<open>Inl InvalidBackupFormat\<close> leaves the state as it is, \<open>Inr\<close> is the state the setters
  install. \<open>data.activeStrategyId || null\<close> turns the empty string into \<open>null\<close>.
\<close>

definition handleRestore ::
  "(string \<Rightarrow> int option) \<Rightarrow> BackupData \<Rightarrow> RestoreError + LedgerState" where
  "handleRestore dateOfString d =
     (if \<not> isValidBackup d then Inl InvalidBackupFormat
      else if \<not> list_all (\<lambda>t. dateOfString (date t) \<noteq> None) (the (bTrades d))
      then Inl InvalidDateInBackup
      else
        (let restoredTrades =
               renumber (sortByDate
                 (map (\<lambda>(index, t). restoredTrade index t (the (dateOfString (date t))))
                    (enumerate 0 (the (bTrades d)))))
         in Inr \<lparr>trades = restoredTrades,
                 initialCapital = the (bInitialCapital d),
                 strategies = the (bStrategies d),
                 activeStrategyId =
                   (case bActiveStrategyId d of
                      None \<Rightarrow> None
                    | Some a \<Rightarrow> if a = [] then None else Some a)\<rparr>))"

text \<open>
  The ledger's invariant in the words of the specification: sorting the stored trades by date
  and numbering them \<open>1..N\<close> in that order changes nothing, and the ids are \<open>1..N\<close>.
\<close>

definition idsArePositions :: "Trade list \<Rightarrow> bool" where
  "idsArePositions ts =
     (renumber (sortByDate ts) = ts \<and> map id' ts = [1..int (length ts)])"

text \<open>A trade with its id put aside, to compare ledgers up to ids.\<close>

definition eraseId :: "Trade \<Rightarrow> Trade" where
  "eraseId t = t\<lparr>id' := 0\<rparr>"

section \<open>Metrics (src/utils/tradeCalculations.ts)\<close>

text \<open>
  A sum that meets an \<open>undefined\<close> pnl is \<open>NaN\<close> from there on (\<open>None\<close>); a comparison with
  \<open>undefined\<close> or \<open>NaN\<close> is false.
\<close>

definition jsAdd :: "rat option \<Rightarrow> rat option \<Rightarrow> rat option" where
  "jsAdd a b = (case (a, b) of (Some x, Some y) \<Rightarrow> Some (x + y) | _ \<Rightarrow> None)"

definition pnlPositive :: "Trade \<Rightarrow> bool" where
  "pnlPositive t = (case pnl t of None \<Rightarrow> False | Some p \<Rightarrow> p > 0)"

definition pnlNotPositive :: "Trade \<Rightarrow> bool" where
  "pnlNotPositive t = (case pnl t of None \<Rightarrow> False | Some p \<Rightarrow> p \<le> 0)"

text \<open>\<open>ts.reduce((acc, t) => acc + t.pnl!, 0)\<close>\<close>

definition sumPnl :: "Trade list \<Rightarrow> rat option" where
  "sumPnl ts = foldl (\<lambda>acc t. jsAdd acc (pnl t)) (Some 0) ts"

datatype StreakType = WinStreak | LossStreak | NoStreak

record DashboardMetrics =
  totalPnl :: "rat option"
  winRate :: rat
  lossRate :: rat
  totalWins :: nat
  totalLosses :: nat
  averageWin :: "rat option"
  averageLoss :: "rat option"
  profitFactor :: "rat option"
  totalTrades :: nat
  maxWinStreakTrades :: nat
  maxLossStreakTrades :: nat
  currentStreak :: "StreakType \<times> nat"
  chartData :: "(string \<times> rat option) list"
  equityChartData :: "(string \<times> rat option) list"

text \<open>The running sum \<open>cumulativePnl += t.pnl!\<close> of the two chart maps.\<close>

fun cumulative :: "rat option \<Rightarrow> Trade list \<Rightarrow> rat option list" where
  "cumulative acc [] = []"
| "cumulative acc (t # ts) = (let acc' = jsAdd acc (pnl t) in acc' # cumulative acc' ts)"

definition tradeName :: "nat \<Rightarrow> string" where
  "tradeName index = ''Trade '' @ showNat (index + 1)"

text \<open>
  The loop over \<open>sortedTrades\<close> for the longest streaks; the state is
  \<open>(maxWinStreakTrades, currentWinStreakTrades, maxLossStreakTrades, currentLossStreakTrades)\<close>.
\<close>

definition streakStep :: "Trade \<Rightarrow> nat \<times> nat \<times> nat \<times> nat \<Rightarrow> nat \<times> nat \<times> nat \<times> nat" where
  "streakStep trade st =
     (case st of (maxWin, curWin, maxLoss, curLoss) \<Rightarrow>
        (let curWin' = (if pnlPositive trade then curWin + 1 else 0);
             curLoss' = (if pnlPositive trade then 0 else curLoss + 1)
         in (max maxWin curWin', curWin', max maxLoss curLoss', curLoss')))"

definition calculateMetrics :: "Trade list \<Rightarrow> rat \<Rightarrow> DashboardMetrics" where
  "calculateMetrics ts capital =
     (let closedTrades = filter (\<lambda>t. status t = StatusClosed) ts
      in if length closedTrades = 0 then
           \<lparr>totalPnl = Some 0, winRate = 0, lossRate = 0, totalWins = 0, totalLosses = 0,
            averageWin = Some 0, averageLoss = Some 0, profitFactor = Some 0, totalTrades = 0,
            maxWinStreakTrades = 0, maxLossStreakTrades = 0, currentStreak = (NoStreak, 0),
            chartData = [(''Start'', Some 0)],
            equityChartData = [(''Start'', Some capital)]\<rparr>
         else
           (let wins = filter pnlPositive closedTrades;
                losses = filter pnlNotPositive closedTrades;
                totalPnl0 = sumPnl closedTrades;
                totalWins0 = length wins;
                totalLosses0 = length losses;
                totalTrades0 = length closedTrades;
                winRate0 = (if totalTrades0 > 0
                            then (of_nat totalWins0 / of_nat totalTrades0) * 100 else 0);
                lossRate0 = (if totalTrades0 > 0
                             then (of_nat totalLosses0 / of_nat totalTrades0) * 100 else 0);
                totalWinPnl = sumPnl wins;
                totalLossPnl = sumPnl losses;
                averageWin0 = (if totalWins0 > 0
                               then map_option (\<lambda>x. x / of_nat totalWins0) totalWinPnl
                               else Some 0);
                averageLoss0 = (if totalLosses0 > 0
                                then map_option (\<lambda>x. x / of_nat totalLosses0) totalLossPnl
                                else Some 0);
                profitFactor0 =
                  (case totalLossPnl of
                     None \<Rightarrow> None
                   | Some l \<Rightarrow>
                       if l \<noteq> 0 then map_option (\<lambda>w. \<bar>w / l\<bar>) totalWinPnl else Some 0);
                sortedTrades = sortByDate closedTrades;
                chartData0 = (''Start'', Some 0) #
                  map (\<lambda>(index, v). (tradeName index, v))
                    (enumerate 0 (cumulative (Some 0) sortedTrades));
                equityChartData0 = (''Start'', Some capital) #
                  map (\<lambda>(index, v). (tradeName index, jsAdd (Some capital) v))
                    (enumerate 0 (cumulative (Some 0) sortedTrades));
                (maxWin, curWin, maxLoss, curLoss) = foldl (\<lambda>st t. streakStep t st) (0, 0, 0, 0) sortedTrades;
                currentStreak0 =
                  (case rev sortedTrades of
                     [] \<Rightarrow> (NoStreak, 0)
                   | lastTrade # _ \<Rightarrow>
                       (if pnlPositive lastTrade then WinStreak else LossStreak,
                        length (takeWhile (\<lambda>t. pnlPositive t = pnlPositive lastTrade)
                                  (rev sortedTrades))))
            in \<lparr>totalPnl = totalPnl0, winRate = winRate0, lossRate = lossRate0,
                totalWins = totalWins0, totalLosses = totalLosses0,
                averageWin = averageWin0, averageLoss = averageLoss0,
                profitFactor = profitFactor0, totalTrades = totalTrades0,
                maxWinStreakTrades = maxWin, maxLossStreakTrades = maxLoss,
                currentStreak = currentStreak0,
                chartData = chartData0, equityChartData = equityChartData0\<rparr>))"

text \<open>
  The sums in the words of the specification: the pnl of the closed trades with a pnl above
  zero, and of the closed trades with a pnl of zero or less.
\<close>

definition winningPnl :: "Trade list \<Rightarrow> rat" where
  "winningPnl ts =
     sum_list (map (\<lambda>t. orZero (pnl t)) (filter (\<lambda>t. status t = StatusClosed \<and> pnlPositive t) ts))"

definition losingPnl :: "Trade list \<Rightarrow> rat" where
  "losingPnl ts =
     sum_list (map (\<lambda>t. orZero (pnl t)) (filter (\<lambda>t. status t = StatusClosed \<and> pnlNotPositive t) ts))"

section \<open>Filter (src/App.tsx, filteredTrades)\<close>

datatype PnlOutcome = OutcomeAll | OutcomeWin | OutcomeLoss

record FilterState =
  startDate :: string
  endDate :: string
  assetFilter :: string
  pnlOutcome :: PnlOutcome
  tradeId :: string

text \<open>
  The bounds \<open>(startId, endId)\<close> read from the trimmed id filter; \<open>None\<close> when they stay
  \<open>undefined\<close>. \<open>parts[0]\<close> and \<open>parts[1]\<close> are the first two pieces at the hyphens.
\<close>

definition idBounds :: "string \<Rightarrow> (int \<times> int) option" where
  "idBounds idFilter =
     (if includesStr idFilter ''-'' then
        (case splitOn (\<lambda>c. c = CHR ''-'') idFilter of
           p0 # p1 # _ \<Rightarrow>
             (case (parseInt p0, parseInt p1) of
                (Some start, Some end') \<Rightarrow> if start \<le> end' then Some (start, end') else None
              | _ \<Rightarrow> None)
         | _ \<Rightarrow> None)
      else
        (case parseInt idFilter of
           Some singleId \<Rightarrow> Some (singleId, singleId)
         | None \<Rightarrow> None))"

text \<open>
  The predicate of the second \<open>trades.filter\<close>. A bound that is the Invalid Date compares
  false and filters nothing.
\<close>

definition passesFilters :: "(string \<Rightarrow> int option) \<Rightarrow> FilterState \<Rightarrow> Trade \<Rightarrow> bool" where
  "passesFilters dateOfString filters trade =
     (if startDate filters \<noteq> [] \<and>
         (case dateOfString (startDate filters) of
            None \<Rightarrow> False
          | Some start \<Rightarrow> date trade < startOfUTCDay start)
      then False
      else if endDate filters \<noteq> [] \<and>
         (case dateOfString (endDate filters) of
            None \<Rightarrow> False
          | Some end' \<Rightarrow> date trade > endOfUTCDay end')
      then False
      else if assetFilter filters \<noteq> [] \<and>
         \<not> includesStr (toLowerCase (asset trade)) (toLowerCase (assetFilter filters))
      then False
      else if pnlOutcome filters = OutcomeWin \<and>
         (case pnl trade of None \<Rightarrow> True | Some p \<Rightarrow> p \<le> 0)
      then False
      else if pnlOutcome filters = OutcomeLoss \<and>
         (case pnl trade of None \<Rightarrow> True | Some p \<Rightarrow> p > 0)
      then False
      else True)"

definition filteredTrades ::
  "(string \<Rightarrow> int option) \<Rightarrow> Trade list \<Rightarrow> FilterState \<Rightarrow> Trade list" where
  "filteredTrades dateOfString ts filters =
     (let idFilter = trim (tradeId filters)
      in if idFilter \<noteq> [] then
           (case idBounds idFilter of
              Some (startId, endId) \<Rightarrow>
                filter (\<lambda>trade. id' trade \<ge> startId \<and> id' trade \<le> endId) ts
            | None \<Rightarrow> [])
         else filter (passesFilters dateOfString filters) ts)"

section \<open>Column-mapped import (GoogleSheetImportModal, handleImport)\<close>

datatype MappableFieldKey =
  KDate | KAsset | KDirection | KLeverage | KEntryPrice | KExitPrice | KSize
  | KStopLoss | KTakeProfit | KJustificacion | KNotas

text \<open>The error thrown for a row, which \<open>handleImport\<close> catches to skip the row.\<close>

datatype RowError =
  FieldEmpty string
  | NotAValidNumber string string
  | DateMissing
  | InvalidDateFormat string
  | CouldNotParseDate string
  | RequiredField string
  | InvalidDirection "string option"

fun indexOf :: "string list \<Rightarrow> string \<Rightarrow> nat option" where
  "indexOf [] x = None"
| "indexOf (h # hs) x = (if h = x then Some 0 else map_option Suc (indexOf hs x))"

text \<open>
  \<open>tradeData[key]\<close> after the loop over the mapping: the cell of the row under the header
  the key is mapped to; \<open>undefined\<close> when the key is unmapped, the header unknown or the row
  too short.
\<close>

definition tradeData ::
  "(MappableFieldKey \<Rightarrow> string option) \<Rightarrow> string list \<Rightarrow> string list \<Rightarrow> MappableFieldKey
   \<Rightarrow> string option" where
  "tradeData mapping headers row key =
     (case mapping key of
        None \<Rightarrow> None
      | Some headerName \<Rightarrow>
          if headerName = [] then None
          else (case indexOf headers headerName of
                  None \<Rightarrow> None
                | Some headerIndex \<Rightarrow>
                    if headerIndex < length row then Some (row ! headerIndex) else None))"

text \<open>The character class \<open>[^\d,\.-]\<close> of the sanitizing \<open>replace\<close>, negated.\<close>

definition isNumericChar :: "char \<Rightarrow> bool" where
  "isNumericChar c = (isDigit c \<or> c = CHR '','' \<or> c = CHR ''.'' \<or> c = CHR ''-'')"

text \<open>The separators rewritten, between the sanitizing and \<open>parseFloat\<close>.\<close>

definition normalizeSeparators :: "string \<Rightarrow> string" where
  "normalizeSeparators sanitizedValue =
     (let lastComma = lastIndexOf sanitizedValue (CHR '','');
          lastPeriod = lastIndexOf sanitizedValue (CHR ''.'')
      in if lastComma > - 1 \<and> lastPeriod > - 1 then
           (if lastComma > lastPeriod
            then replaceFirst (CHR '','') (CHR ''.'') (filter (\<lambda>c. c \<noteq> CHR ''.'') sanitizedValue)
            else filter (\<lambda>c. c \<noteq> CHR '','') sanitizedValue)
         else if lastComma > - 1 then replaceFirst (CHR '','') (CHR ''.'') sanitizedValue
         else sanitizedValue)"

text \<open>\<open>parseNumericValue(value, fieldName, isRequired)\<close> of \<open>handleImport\<close>.\<close>

definition parseNumericValue :: "string option \<Rightarrow> string \<Rightarrow> bool \<Rightarrow> RowError + rat option" where
  "parseNumericValue value fieldName isRequired =
     (case value of
        None \<Rightarrow> if isRequired then Inl (FieldEmpty fieldName) else Inr None
      | Some v \<Rightarrow>
          if v = [] \<or> trim v = [] then
            (if isRequired then Inl (FieldEmpty fieldName) else Inr None)
          else
            (case parseFloat (normalizeSeparators (filter isNumericChar (trim v))) of
               None \<Rightarrow> if isRequired then Inl (NotAValidNumber fieldName v) else Inr None
             | Some number \<Rightarrow> Inr (Some number)))"

text \<open>
  The date of a row (the lines of \<open>handleImport\<close> from the check of \<open>tradeData.date\<close> to
  the check of \<open>parsedDate\<close>): three parts at \<open>/\<close>, \<open>-\<close> or \<open>.\<close>, year first when the first
  part has four code units, \<open>Date.UTC\<close>, and the range checks. A part that is not a number
  is \<open>NaN\<close>, on which every comparison is false.
\<close>

definition isDateSeparator :: "char \<Rightarrow> bool" where
  "isDateSeparator c = (c = CHR ''/'' \<or> c = CHR ''-'' \<or> c = CHR ''.'')"

definition expandYear :: "int option \<Rightarrow> int option" where
  "expandYear year =
     (case year of
        None \<Rightarrow> None
      | Some y \<Rightarrow> if y < 100 then (if y \<ge> 50 then Some (1900 + y) else Some (2000 + y)) else Some y)"

definition outside :: "int option \<Rightarrow> int \<Rightarrow> int \<Rightarrow> bool" where
  "outside v lo hi = (case v of None \<Rightarrow> False | Some x \<Rightarrow> x < lo \<or> x > hi)"

definition parseDate :: "string option \<Rightarrow> RowError + int" where
  "parseDate dateField =
     (case dateField of
        None \<Rightarrow> Inl DateMissing
      | Some raw \<Rightarrow>
          if raw = [] \<or> trim raw = [] then Inl DateMissing
          else
            (let dateStr = trim raw
             in case splitOn isDateSeparator dateStr of
                  [s1, s2, s3] \<Rightarrow>
                    (let p1 = parseInt s1; p2 = parseInt s2; p3 = parseInt s3;
                         (day, month, year) =
                           (if length s1 = 4 then (p3, p2, p1) else (p1, p2, p3));
                         parsedDate = DateUTC (expandYear year) (map_option (\<lambda>m. m - 1) month) day
                     in case parsedDate of
                          None \<Rightarrow> Inl (CouldNotParseDate dateStr)
                        | Some t \<Rightarrow>
                            if outside month 1 12 \<or> outside day 1 31
                            then Inl (CouldNotParseDate dateStr)
                            else Inr t)
                | _ \<Rightarrow> Inl (InvalidDateFormat dateStr)))"

definition parseDirection :: "string option \<Rightarrow> RowError + TradeDirection" where
  "parseDirection directionField =
     (let dirString = toLowerCase (case directionField of None \<Rightarrow> [] | Some s \<Rightarrow> s)
      in if includesStr dirString ''long'' \<or> includesStr dirString ''compra'' then Inr Long
         else if includesStr dirString ''short'' \<or> includesStr dirString ''venta'' then Inr Short
         else Inl (InvalidDirection directionField))"

text \<open>\<open>s?.trim()\<close>, then the test for a non-empty string.\<close>

definition trimmedText :: "string option \<Rightarrow> string option" where
  "trimmedText s =
     (case s of None \<Rightarrow> None | Some v \<Rightarrow> if trim v = [] then None else Some (trim v))"

definition importJournal :: "string option \<Rightarrow> string option \<Rightarrow> string" where
  "importJournal justificacion notas =
     (let j1 = (case trimmedText justificacion of
                  None \<Rightarrow> []
                | Some t \<Rightarrow> ''Justificaci'' @ [char_of (243::nat)] @ ''n t'' @ [char_of (233::nat)]
                            @ ''cnica: '' @ t)
      in case trimmedText notas of
           None \<Rightarrow> j1
         | Some t \<Rightarrow> (if j1 \<noteq> [] then j1 @ [char_of (10::nat), char_of (10::nat)] else j1)
                      @ ''Notas adicionales: '' @ t)"

text \<open>\<open>String(s || fallback)\<close>\<close>

definition orText :: "string option \<Rightarrow> string \<Rightarrow> string" where
  "orText s fallback = (case s of None \<Rightarrow> fallback | Some v \<Rightarrow> if v = [] then fallback else v)"

text \<open>
  One row of \<open>handleImport\<close>, in the order of the source's statements: \<open>Inl\<close> is the
  exception that makes the row \<open>null\<close>, \<open>Inr\<close> the imported trade with its status.
\<close>

definition importRow ::
  "(MappableFieldKey \<Rightarrow> string option) \<Rightarrow> string list \<Rightarrow> string list
   \<Rightarrow> RowError + (TradeInput \<times> TradeStatus)" where
  "importRow mapping headers row =
     (let td = tradeData mapping headers row
      in case parseDate (td KDate) of
           Inl e \<Rightarrow> Inl e
         | Inr parsedDate \<Rightarrow>
        (case parseNumericValue (td KEntryPrice) ''Entrada'' True of
           Inl e \<Rightarrow> Inl e
         | Inr entryPrice0 \<Rightarrow>
        (case parseNumericValue (td KExitPrice) ''Salida'' True of
           Inl e \<Rightarrow> Inl e
         | Inr exitPrice0 \<Rightarrow>
        (case parseNumericValue (td KSize) (''Tama'' @ [char_of (241::nat)] @ ''o'') True of
           Inl e \<Rightarrow> Inl e
         | Inr size0 \<Rightarrow>
        (case parseNumericValue (td KStopLoss) ''Stop Loss'' False of
           Inl e \<Rightarrow> Inl e
         | Inr stopLoss0 \<Rightarrow>
        (case parseNumericValue (td KTakeProfit) ''Take Profit'' False of
           Inl e \<Rightarrow> Inl e
         | Inr takeProfit0 \<Rightarrow>
        (case entryPrice0 of
           None \<Rightarrow> Inl (RequiredField ''Entrada'')
         | Some entry \<Rightarrow>
        (case exitPrice0 of
           None \<Rightarrow> Inl (RequiredField ''Salida'')
         | Some exit \<Rightarrow>
        (case size0 of
           None \<Rightarrow> Inl (RequiredField (''Tama'' @ [char_of (241::nat)] @ ''o''))
         | Some sz \<Rightarrow>
        (case parseDirection (td KDirection) of
           Inl e \<Rightarrow> Inl e
         | Inr dir \<Rightarrow>
             Inr (\<lparr>date = parsedDate,
                   asset = orText (td KAsset) ''N/A'',
                   direction = dir,
                   entryPrice = entry,
                   exitPrice = Some exit,
                   size' = sz,
                   pnl = Some (if dir = Long then (exit - entry) * sz else (entry - exit) * sz),
                   journal = importJournal (td KJustificacion) (td KNotas),
                   analysis = None,
                   stopLoss = stopLoss0,
                   takeProfit = takeProfit0,
                   leverage = Some (orText (td KLeverage) [])\<rparr>,
                  StatusClosed)))))))))))"

text \<open>\<open>handleImport\<close>: the rows that did not throw, handed to \<open>onImport\<close>.\<close>

definition handleImport ::
  "(MappableFieldKey \<Rightarrow> string option) \<Rightarrow> string list \<Rightarrow> string list list
   \<Rightarrow> (TradeInput \<times> TradeStatus) list" where
  "handleImport mapping headers allRows =
     List.map_filter
       (\<lambda>row. case importRow mapping headers row of Inl e \<Rightarrow> None | Inr t \<Rightarrow> Some t) allRows"

text \<open>
  The policy in the words of the specification, on a string already stripped: when both
  separators occur the one that occurs last is the decimal point and the other one is removed;
  when only the comma occurs it is the decimal point; otherwise the standard parse. Every
  occurrence of the decimal symbol reads as a point.
\<close>

definition isSeparator :: "char \<Rightarrow> bool" where
  "isSeparator c = (c = CHR '','' \<or> c = CHR ''.'')"

definition readWithDecimalPoint :: "char \<Rightarrow> string \<Rightarrow> rat option" where
  "readWithDecimalPoint d s =
     parseFloat (map (\<lambda>c. if c = d then CHR ''.'' else c)
                   (filter (\<lambda>c. c = d \<or> \<not> isSeparator c) s))"

definition specNumber :: "string \<Rightarrow> rat option" where
  "specNumber s =
     (if CHR '','' \<in> set s \<and> CHR ''.'' \<in> set s
      then readWithDecimalPoint (last (filter isSeparator s)) s
      else if CHR '','' \<in> set s then readWithDecimalPoint (CHR '','') s
      else parseFloat s)"

definition isCurrencyOrSpace :: "char \<Rightarrow> bool" where
  "isCurrencyOrSpace c = (isWhiteSpace c \<or> (of_char c :: nat) \<in> {36, 162, 163, 164, 165})"

definition parseNumberSpec :: "string \<Rightarrow> rat option" where
  "parseNumberSpec raw = specNumber (filter (\<lambda>c. \<not> isCurrencyOrSpace c) raw)"

text \<open>
  The characters of a number written without an exponent: the digits, the two separators and
  the minus sign.
\<close>

definition isPlainNumberChar :: "char \<Rightarrow> bool" where
  "isPlainNumberChar c = (c \<in> set ''0123456789,.-'')"

text \<open>The comma read as a point.\<close>

definition sepToPoint :: "char \<Rightarrow> char" where
  "sepToPoint c = (if c = CHR '','' then CHR ''.'' else c)"

section \<open>Trade form and quick add (src/components/TradeModal.tsx)\<close>

subsection \<open>Quick add\<close>

text \<open>
  \<open>text.replace(/(?<=\d),(?=\d{3})/g, '')\<close>: a comma goes when the code unit before it is a
  digit and the three code units after it are digits. The scan carries the code unit before
  the current one; the first code unit of the text has none before it.
\<close>

definition threeDigits :: "string \<Rightarrow> bool" where
  "threeDigits cs =
     (case cs of a # b # c # _ \<Rightarrow> isDigit a \<and> isDigit b \<and> isDigit c | _ \<Rightarrow> False)"

fun stripAfter :: "char \<Rightarrow> string \<Rightarrow> string" where
  "stripAfter prev [] = []"
| "stripAfter prev (c # cs) =
     (if c = CHR '','' \<and> isDigit prev \<and> threeDigits cs then stripAfter c cs
      else c # stripAfter c cs)"

definition stripGrouping :: "string \<Rightarrow> string" where
  "stripGrouping text = (case text of [] \<Rightarrow> [] | c # cs \<Rightarrow> c # stripAfter c cs)"

text \<open>The object \<open>parsePastedData\<close> returns.\<close>

record PastedData =
  pDate :: string
  pAsset :: string
  pDirection :: TradeDirection
  pLeverage :: string
  pEntryPrice :: "rat option"
  pExitPrice :: "rat option"
  pStopLoss :: "rat option"
  pTakeProfit :: "rat option"
  pSize :: "rat option"
  pJournal :: string

text \<open>\<open>parseNumericValue\<close> of \<open>parsePastedData\<close>.\<close>

definition pastedNumericValue :: "string option \<Rightarrow> rat option" where
  "pastedNumericValue value =
     (case value of
        None \<Rightarrow> None
      | Some v \<Rightarrow>
          if v = [] \<or> trim v = [] then None
          else parseFloat (filter (\<lambda>c. c \<noteq> CHR ''$'' \<and> c \<noteq> CHR '','') (trim v)))"

text \<open>\<open>structuredParts[i]\<close>, \<open>undefined\<close> past the end.\<close>

definition part :: "string list \<Rightarrow> nat \<Rightarrow> string option" where
  "part structuredParts i = (if i < length structuredParts then Some (structuredParts ! i) else None)"

text \<open>
  \<open>parsePastedData\<close>: \<open>None\<close> is \<open>null\<close>, returned for fewer than 8 parts and when
  \<open>toISOString\<close> throws on the Invalid Date.
\<close>

definition parsePastedData :: "(string \<Rightarrow> int option) \<Rightarrow> string \<Rightarrow> PastedData option" where
  "parsePastedData dateOfString text =
     (let sanitizedText = stripGrouping text;
          parts = splitOn (\<lambda>c. c = CHR '','') sanitizedText
      in if length parts < 8 then None
         else
           (let structuredParts = map trim (take 9 parts);
                journal0 = (if length parts > 9 then trim (joinWith (CHR '','') (drop 9 parts))
                            else [])
            in case dateOfString (orText (part structuredParts 0) []) of
                 None \<Rightarrow> None
               | Some t \<Rightarrow>
                   Some \<lparr>pDate = isoDay (toISOString t),
                         pAsset = orText (part structuredParts 1) [],
                         pDirection =
                           (if includesStr (toLowerCase (orText (part structuredParts 2) []))
                                 ''long''
                            then Long else Short),
                         pLeverage = orText (part structuredParts 3) [],
                         pEntryPrice = pastedNumericValue (part structuredParts 4),
                         pExitPrice = pastedNumericValue (part structuredParts 5),
                         pStopLoss = pastedNumericValue (part structuredParts 6),
                         pTakeProfit = pastedNumericValue (part structuredParts 7),
                         pSize = pastedNumericValue (part structuredParts 8),
                         pJournal = journal0\<rparr>))"

text \<open>
  The trade \<open>onConfirm\<close> hands to \<open>onOpenTrade\<close>: the pasted data without \<open>exitPrice\<close>, the
  date read back from its ISO day.
\<close>

definition openTradeOfPaste :: "PastedData \<Rightarrow> int \<Rightarrow> TradeInput" where
  "openTradeOfPaste d dt =
     \<lparr>date = dt, asset = pAsset d, direction = pDirection d,
      entryPrice = orZero (pEntryPrice d), exitPrice = None, size' = orZero (pSize d),
      pnl = None, journal = pJournal d, analysis = None,
      stopLoss = pStopLoss d, takeProfit = pTakeProfit d, leverage = Some (pLeverage d)\<rparr>"

text \<open>
  What \<open>handlePasteDataChange\<close> does with the pasted text: nothing (\<open>PasteIgnored\<close>), fill
  the form (\<open>FillForm\<close>), or ask "Is this an open trade?" (\<open>AskOpenTrade\<close>: on confirmation
  the trade goes to \<open>onOpenTrade\<close>, on cancel the form is filled and the exit price is
  required). \<open>AskOpenTradeInvalidDate\<close> is the same prompt when the platform does not read the
  ISO day back, where the confirmed trade would hold an Invalid Date.
\<close>

datatype PasteOutcome =
  PasteIgnored
  | FillForm PastedData
  | AskOpenTrade TradeInput PastedData
  | AskOpenTradeInvalidDate PastedData

definition handlePasteDataChange :: "(string \<Rightarrow> int option) \<Rightarrow> string \<Rightarrow> PasteOutcome" where
  "handlePasteDataChange dateOfString text =
     (case parsePastedData dateOfString text of
        None \<Rightarrow> PasteIgnored
      | Some d \<Rightarrow>
          if truthy (pExitPrice d) \<and> positive (pExitPrice d) then FillForm d
          else (case dateOfString (pDate d) of
                  None \<Rightarrow> AskOpenTradeInvalidDate d
                | Some dt \<Rightarrow> AskOpenTrade (openTradeOfPaste d dt) d))"

subsection \<open>The form\<close>

record FormData =
  fDate :: string
  fAsset :: string
  fDirection :: TradeDirection
  fLeverage :: string
  fEntryPrice :: string
  fExitPrice :: string
  fSize :: string
  fJournal :: string
  fStopLoss :: string
  fTakeProfit :: string

text \<open>\<open>validate()\<close>: true when no field gets an error.\<close>

definition validate :: "Trade option \<Rightarrow> bool \<Rightarrow> FormData \<Rightarrow> bool" where
  "validate existingTrade isExitRequiredAfterPaste f =
     (let isEditingClosedTrade =
            (case existingTrade of None \<Rightarrow> False | Some t \<Rightarrow> status t = StatusClosed);
          isExitPricePotentiallyRequired = (isEditingClosedTrade \<or> isExitRequiredAfterPaste);
          exitPriceValue = trim (fExitPrice f)
      in trim (fAsset f) \<noteq> [] \<and> fDate f \<noteq> []
         \<and> positive (parseFloat (fEntryPrice f))
         \<and> positive (parseFloat (fSize f))
         \<and> (if isExitPricePotentiallyRequired \<and> exitPriceValue = [] then False
             else if exitPriceValue \<noteq> [] then positive (parseFloat exitPriceValue)
             else True))"

text \<open>
  The state \<open>pnl\<close> of the form, which an effect recomputes from the fields after every change
  of them: \<open>None\<close> is \<open>null\<close>.
\<close>

definition calculatedPnl :: "FormData \<Rightarrow> rat option" where
  "calculatedPnl f =
     (case (parseFloat (fEntryPrice f), parseFloat (fExitPrice f), parseFloat (fSize f)) of
        (Some entry, Some exit, Some sz) \<Rightarrow>
          if entry > 0 \<and> exit > 0 \<and> sz > 0 then
            Some (if fDirection f = Long then (exit - entry) * sz else (entry - exit) * sz)
          else None
      | _ \<Rightarrow> None)"

text \<open>
  What \<open>handleSubmit\<close> does: nothing when \<open>validate\<close> fails (\<open>Rejected\<close>), or one call of a
  ledger operation. \<open>SubmitInvalidDate\<close> stands for a date text the platform does not read,
  where the source goes on with an Invalid Date.
\<close>

datatype SubmitOutcome =
  Rejected
  | SubmitInvalidDate
  | CallOpenTrade TradeInput
  | CallAddCompleteTrade TradeInput
  | CallUpdateTrade Trade

text \<open>\<open>parsedData\<close>; after \<open>validate\<close> the entry price and the size are numbers.\<close>

definition parsedData :: "FormData \<Rightarrow> int \<Rightarrow> TradeInput" where
  "parsedData f dt =
     \<lparr>date = dt, asset = fAsset f, direction = fDirection f,
      entryPrice = the (parseFloat (fEntryPrice f)),
      exitPrice = orUndefined (parseFloat (fExitPrice f)),
      size' = the (parseFloat (fSize f)),
      pnl = None, journal = fJournal f, analysis = None,
      stopLoss = orUndefined (parseFloat (fStopLoss f)),
      takeProfit = orUndefined (parseFloat (fTakeProfit f)),
      leverage = Some (fLeverage f)\<rparr>"

definition handleSubmit ::
  "(string \<Rightarrow> int option) \<Rightarrow> Trade option \<Rightarrow> bool \<Rightarrow> FormData \<Rightarrow> SubmitOutcome" where
  "handleSubmit dateOfString existingTrade isExitRequiredAfterPaste f =
     (if \<not> validate existingTrade isExitRequiredAfterPaste f then Rejected
      else case dateOfString (fDate f) of
        None \<Rightarrow> SubmitInvalidDate
      | Some dt \<Rightarrow>
          (let pd = parsedData f dt
           in case existingTrade of
                None \<Rightarrow>
                  if truthy (exitPrice pd) \<and> positive (exitPrice pd) then CallAddCompleteTrade pd
                  else CallOpenTrade (pd\<lparr>exitPrice := None\<rparr>)
              | Some existing \<Rightarrow>
                  (let isNowClosed = (truthy (exitPrice pd) \<and> positive (exitPrice pd));
                       newStatus = (if isNowClosed then StatusClosed else StatusOpen);
                       finalPnl = (if isNowClosed then calculatedPnl f else None)
                   in CallUpdateTrade
                        \<lparr>date = date pd, asset = asset pd, direction = direction pd,
                         entryPrice = entryPrice pd, exitPrice = exitPrice pd,
                         size' = size' pd, pnl = finalPnl, journal = journal pd,
                         analysis = analysis existing, stopLoss = stopLoss pd,
                         takeProfit = takeProfit pd, leverage = leverage pd,
                         id' = id' existing, status = newStatus\<rparr>)))"

subsection \<open>The quick-add grammar in the words of the specification\<close>

text \<open>
  The comma at position \<open>i\<close> is a digit-grouping comma: a digit stands before it and three
  digits follow it. \<open>pastedParts\<close> are the parts of the line after the grouping commas are
  gone.
\<close>

definition isGroupingComma :: "string \<Rightarrow> nat \<Rightarrow> bool" where
  "isGroupingComma text i =
     (text ! i = CHR '','' \<and> 0 < i \<and> isDigit (text ! (i - 1)) \<and> i + 3 < length text
      \<and> isDigit (text ! (i + 1)) \<and> isDigit (text ! (i + 2)) \<and> isDigit (text ! (i + 3)))"

definition pastedParts :: "string \<Rightarrow> string list" where
  "pastedParts text = splitOn (\<lambda>c. c = CHR '','') (stripGrouping text)"

subsection \<open>The invariant of the data model\<close>

text \<open>
  A trade is closed exactly when its pnl is defined, and a pnl is stored only with an exit
  price above zero.
\<close>

definition tradeOk :: "Trade \<Rightarrow> bool" where
  "tradeOk t =
     ((status t = StatusClosed) = (pnl t \<noteq> None) \<and> (pnl t = None \<or> positive (exitPrice t)))"

definition ledgerOk :: "Trade list \<Rightarrow> bool" where
  "ledgerOk ts = list_all tradeOk ts"

section \<open>Example data\<close>

text \<open>
  The two trades of the specification's scenario, 2024-01-01 and 2024-01-02 at midnight UTC,
  and a backup file that lists them latest first.
\<close>

definition scenarioLong :: TradeInput where
  "scenarioLong =
     \<lparr>date = 1704067200000, asset = ''BTC/USDT'', direction = Long, entryPrice = 100,
      exitPrice = Some 110, size' = 1, pnl = None, journal = [], analysis = None,
      stopLoss = None, takeProfit = None, leverage = Some ''10x''\<rparr>"

definition scenarioShort :: TradeInput where
  "scenarioShort =
     \<lparr>date = 1704153600000, asset = ''BTC/USDT'', direction = Short, entryPrice = 100,
      exitPrice = Some 90, size' = 2, pnl = None, journal = [], analysis = None,
      stopLoss = None, takeProfit = None, leverage = Some ''10x''\<rparr>"

definition scenarioLedger :: "Trade list" where
  "scenarioLedger = handleAddCompleteTrade scenarioShort (handleAddCompleteTrade scenarioLong [])"

definition exampleBackup :: BackupData where
  "exampleBackup =
     \<lparr>bTrades = Some
        [\<lparr>date = ''2024-01-02T00:00:00.000Z'', asset = ''BTC/USDT'', direction = Short,
          entryPrice = 100, exitPrice = Some 90, size' = 2, pnl = Some 20, journal = [],
          analysis = None, stopLoss = None, takeProfit = None, leverage = Some ''10x'',
          id' = 7, status = StatusClosed\<rparr>,
         \<lparr>date = ''2024-01-01T00:00:00.000Z'', asset = ''BTC/USDT'', direction = Long,
          entryPrice = 100, exitPrice = None, size' = 1, pnl = None, journal = [],
          analysis = None, stopLoss = None, takeProfit = None, leverage = Some ''10x'',
          id' = 7, status = StatusOpen\<rparr>],
      bInitialCapital = Some 1000,
      bStrategies = Some [],
      bActiveStrategyId = None,
      bTimestamp = Some ''2024-02-01T00:00:00.000Z''\<rparr>"

text \<open>A ledger of ten open trades with the ids 1 to 10, and a filter with only the id field.\<close>

definition tenTradeLedger :: "Trade list" where
  "tenTradeLedger =
     map (\<lambda>n. withIdStatus scenarioLong n StatusOpen) [1, 2, 3, 4, 5, 6, 7, 8, 9, 10]"

definition idFilterOnly :: "string \<Rightarrow> FilterState" where
  "idFilterOnly s =
     \<lparr>startDate = [], endDate = [], assetFilter = [], pnlOutcome = OutcomeAll, tradeId = s\<rparr>"

text \<open>
  A sheet with six mapped columns, and rows: with the exit price 0, with a negative exit
  price, with a blank exit price, and a valid one.
\<close>

definition exampleHeaders :: "string list" where
  "exampleHeaders = [''Fecha'', ''Par'', ''Direccion'', ''Entrada'', ''Salida'', ''Cantidad'']"

definition exampleMapping :: "MappableFieldKey \<Rightarrow> string option" where
  "exampleMapping k =
     (case k of
        KDate \<Rightarrow> Some ''Fecha''
      | KAsset \<Rightarrow> Some ''Par''
      | KDirection \<Rightarrow> Some ''Direccion''
      | KEntryPrice \<Rightarrow> Some ''Entrada''
      | KExitPrice \<Rightarrow> Some ''Salida''
      | KSize \<Rightarrow> Some ''Cantidad''
      | _ \<Rightarrow> None)"

definition rowWithZeroExit :: "string list" where
  "rowWithZeroExit = [''15/01/2024'', ''BTC/USDT'', ''compra'', ''100'', ''0'', ''1'']"

definition rowWithNegativeExit :: "string list" where
  "rowWithNegativeExit = [''16/01/2024'', ''BTC/USDT'', ''compra'', ''100'', ''-5'', ''1'']"

definition rowWithBlankExit :: "string list" where
  "rowWithBlankExit = [''16/01/2024'', ''BTC/USDT'', ''compra'', ''100'', '' '', ''1'']"

definition rowClosed :: "string list" where
  "rowClosed = [''16/01/2024'', ''BTC/USDT'', ''venta'', ''100'', ''90'', ''2'']"

text \<open>Quick-add lines: one with the exit price 0, one whose date no platform reads.\<close>

definition lineWithZeroExit :: string where
  "lineWithZeroExit = ''2024-01-15, BTC/USDT, Long, 10x, 100, 0, 90, 120, 1, breakout''"

definition lineWithBadDate :: string where
  "lineWithBadDate = ''not a date, BTC/USDT, Long, 10x, 100, 110, 90, 120, 1''"

text \<open>What \<open>parsePastedData\<close> returns on \<open>lineWithZeroExit\<close>.\<close>

definition pastedZeroExit :: PastedData where
  "pastedZeroExit =
     \<lparr>pDate = ''2024-01-15'', pAsset = ''BTC/USDT'', pDirection = Long, pLeverage = ''10x'',
      pEntryPrice = Some 100, pExitPrice = Some 0, pStopLoss = Some 90,
      pTakeProfit = Some 120, pSize = Some 1, pJournal = ''breakout''\<rparr>"

text \<open>A ledger state with a strategy, and one whose active strategy id is the empty string.\<close>

definition exampleState :: LedgerState where
  "exampleState =
     \<lparr>trades = scenarioLedger, initialCapital = 1000,
      strategies = [\<lparr>id_s = ''2024-01-01T10:00:00.000Z'', name = ''Breakout'',
                     content = ''Buy the retest''\<rparr>],
      activeStrategyId = Some ''2024-01-01T10:00:00.000Z''\<rparr>"

definition emptyIdState :: LedgerState where
  "emptyIdState =
     \<lparr>trades = [], initialCapital = 1000, strategies = [], activeStrategyId = Some []\<rparr>"

text \<open>The form filled for an open trade, and with an exit price.\<close>

definition formOpen :: FormData where
  "formOpen =
     \<lparr>fDate = ''2024-01-15'', fAsset = ''BTC/USDT'', fDirection = Long, fLeverage = ''10x'',
      fEntryPrice = ''100'', fExitPrice = [], fSize = ''1'', fJournal = ''breakout'',
      fStopLoss = ''90'', fTakeProfit = []\<rparr>"

definition formClosed :: FormData where
  "formClosed = formOpen\<lparr>fExitPrice := ''110''\<rparr>"

definition openTradeNo3 :: Trade where
  "openTradeNo3 =
     \<lparr>date = 1705276800000, asset = ''BTC/USDT'', direction = Long, entryPrice = 100,
      exitPrice = None, size' = 1, pnl = None, journal = ''breakout'',
      analysis = Some ''reviewed'', stopLoss = Some 90, takeProfit = None,
      leverage = Some ''10x'', id' = 3, status = StatusOpen\<rparr>"

section \<open>Evaluation of the platform functions\<close>

lemma replicate_numeral_Cons: "replicate (numeral k) x = x # replicate (pred_numeral k) x"
  by (simp add: numeral_eq_Suc)

lemmas char_defs = isDigit_def digitVal_def natOfDigits_def isWhiteSpace_def digitChar_def
  toLowerChar_def toLowerCase_def char_of_eq_iff

lemmas number_defs = parseInt_def parseFloat_def decimalValue_def takeSign_def takeFraction_def takeExponent_def
  truthy_def orUndefined_def

lemmas civil_defs = civilFromDays_def civilOfEra_def civilOfYear_def civilOfMonth_def
  yearOfEra_def dayOfYear_def

lemmas iso_defs = toISOString_def isoOfParts_def isoYear_def padNat_def msPerDay_def
  showNat.simps replicate_numeral_Cons isoDay_def

lemmas utc_defs = DateUTC_def TimeClip_def MakeDay_def DayFromYear_def InLeapYear_def
  daysBeforeMonth_def msPerDay_def daysInMonth_def

lemmas isoparse_defs = dateOfISOString_def isoCivil_def isoTime_def fixedDigits_def

lemmas ledger_defs = handleAddCompleteTrade_def handleOpenTrade_def getNextId_def withIdStatus_def
  sortByDate_def renumber_def

lemma exampleBackup_dates:
  "dateOfISOString ''2024-01-02T00:00:00.000Z'' = Some 1704153600000"
  "dateOfISOString ''2024-01-01T00:00:00.000Z'' = Some 1704067200000"
  by (simp_all add: isoparse_defs utc_defs char_defs)

section \<open>Ledger: the ids are the positions in date order\<close>

lemma map_date_enum:
  "map date (map (\<lambda>(index, t). t\<lparr>id' := int index + 1\<rparr>) (enumerate n ts)) = map date ts"
  by (induction ts arbitrary: n) simp_all

lemma map_date_renumber: "map date (renumber ts) = map date ts"
  unfolding renumber_def by (rule map_date_enum)

lemma enum_idem:
  "map (\<lambda>(index, t). t\<lparr>id' := int index + 1\<rparr>)
     (enumerate n (map (\<lambda>(index, t). t\<lparr>id' := int index + 1\<rparr>) (enumerate n ts)))
   = map (\<lambda>(index, t). t\<lparr>id' := int index + 1\<rparr>) (enumerate n ts)"
  by (induction ts arbitrary: n) simp_all

lemma renumber_idem: "renumber (renumber ts) = renumber ts"
  by (simp add: renumber_def enum_idem)

lemma map_id_enum:
  "map id' (map (\<lambda>(index, t). t\<lparr>id' := int index + 1\<rparr>) (enumerate n ts))
   = map (\<lambda>i. int i + 1) [n..<n + length ts]"
  by (induction ts arbitrary: n) (simp_all add: upt_rec)

lemma map_id_renumber: "map id' (renumber ts) = map (\<lambda>i. int i + 1) [0..<length ts]"
  using map_id_enum[of 0 ts] by (simp add: renumber_def)

lemma upto_as_map: "map (\<lambda>i. int i + 1) [0..<n] = [1..int n]"
  by (induction n) (simp_all add: upto_rec2)

lemma length_renumber: "length (renumber ts) = length ts"
  by (simp add: renumber_def)

lemma length_sortByDate: "length (sortByDate ts) = length ts"
  by (simp add: sortByDate_def)

lemma sorted_sortByDate: "sorted (map date (sortByDate ts))"
  by (simp add: sortByDate_def)

lemma resequence_fix:
  "renumber (sortByDate (renumber (sortByDate ts))) = renumber (sortByDate ts)"
proof -
  have "sorted (map date (renumber (sortByDate ts)))"
    by (simp add: map_date_renumber sorted_sortByDate)
  then have "sortByDate (renumber (sortByDate ts)) = renumber (sortByDate ts)"
    unfolding sortByDate_def by (rule sort_key_id_if_sorted)
  then show ?thesis by (simp add: renumber_idem)
qed

lemma ids_resequence: "map id' (renumber (sortByDate ts)) = [1..int (length ts)]"
  by (simp add: map_id_renumber upto_as_map sortByDate_def)

lemma idsArePositions_resequence: "idsArePositions (renumber (sortByDate ts))"
  unfolding idsArePositions_def
  using ids_resequence[of ts] by (simp add: resequence_fix length_renumber length_sortByDate)

lemma renumber_map_status:
  "renumber (map (\<lambda>t. t\<lparr>status := s\<rparr>) ts) = map (\<lambda>t. t\<lparr>status := s\<rparr>) (renumber ts)"
  unfolding renumber_def
  by (induction ts rule: rev_induct) (simp_all add: enumerate_append_eq)

lemma idsArePositions_map_status:
  assumes "idsArePositions ts"
  shows "idsArePositions (map (\<lambda>t. t\<lparr>status := s\<rparr>) ts)"
proof -
  let ?f = "\<lambda>t::Trade. t\<lparr>status := s\<rparr>"
  from assms have fx: "renumber (sortByDate ts) = ts"
    and ids: "map id' ts = [1..int (length ts)]"
    by (simp_all add: idsArePositions_def)
  have "sorted (map date ts)"
    using fx map_date_renumber[of "sortByDate ts"] sorted_sortByDate[of ts] by simp
  then have "sorted (map date (map ?f ts))" by (simp add: comp_def)
  then have "sortByDate (map ?f ts) = map ?f ts"
    unfolding sortByDate_def by (rule sort_key_id_if_sorted)
  moreover have "renumber ts = ts"
    using fx renumber_idem[of "sortByDate ts"] by simp
  ultimately have "renumber (sortByDate (map ?f ts)) = map ?f ts"
    by (simp add: renumber_map_status)
  moreover have "map id' (map ?f ts) = [1..int (length (map ?f ts))]"
    using ids by (simp add: comp_def)
  ultimately show ?thesis unfolding idsArePositions_def by simp
qed

lemma handleRestore_Inr:
  assumes "isValidBackup d"
    and "list_all (\<lambda>t. dateOfString (date t) \<noteq> None) (the (bTrades d))"
  shows "\<exists>s. handleRestore dateOfString d = Inr s"
  using assms by (simp add: handleRestore_def Let_def)

text \<open>
  Claim C1. After \<open>insertOpen\<close>, \<open>insertClosed\<close>, \<open>update\<close>, \<open>delete\<close> and the bulk restore,
  whatever the ledger was before, sorting the stored trades by date and numbering them
  \<open>1..N\<close> in that order gives back the stored list, and the stored ids are \<open>1..N\<close>. The
  import of a sheet keeps that property of the ledger.
\<close>

theorem ledger_ids_positional:
  "idsArePositions (handleOpenTrade c prev)
   \<and> idsArePositions (handleAddCompleteTrade c prev)
   \<and> idsArePositions (handleUpdateTrade u prev)
   \<and> idsArePositions (handleConfirmDelete n prev)
   \<and> (handleRestore dateOfString d = Inr s \<longrightarrow> idsArePositions (trades s))
   \<and> (idsArePositions prev \<longrightarrow> idsArePositions (handleImportFromGoogleSheet new prev))"
proof -
  have 1: "idsArePositions (handleOpenTrade c prev)"
    by (simp add: handleOpenTrade_def Let_def idsArePositions_resequence)
  have 2: "idsArePositions (handleAddCompleteTrade c prev)"
    by (simp add: handleAddCompleteTrade_def Let_def idsArePositions_resequence)
  have 3: "idsArePositions (handleUpdateTrade u prev)"
    by (simp add: handleUpdateTrade_def Let_def idsArePositions_resequence)
  have 4: "idsArePositions (handleConfirmDelete n prev)"
    by (simp add: handleConfirmDelete_def Let_def idsArePositions_resequence)
  have 5: "handleRestore dateOfString d = Inr s \<longrightarrow> idsArePositions (trades s)"
    by (auto simp add: handleRestore_def Let_def idsArePositions_resequence split: if_splits)
  have 6: "idsArePositions prev \<longrightarrow> idsArePositions (handleImportFromGoogleSheet new prev)"
    by (simp add: handleImportFromGoogleSheet_def Let_def idsArePositions_resequence
        idsArePositions_map_status)
  from 1 2 3 4 5 6 show ?thesis by blast
qed

theorem ledger_ids_positional_witness:
  "idsArePositions (handleOpenTrade scenarioLong scenarioLedger)
   \<and> idsArePositions (handleAddCompleteTrade scenarioLong scenarioLedger)
   \<and> idsArePositions (handleUpdateTrade (withIdStatus scenarioLong 2 StatusOpen) scenarioLedger)
   \<and> idsArePositions (handleConfirmDelete 1 scenarioLedger)
   \<and> (\<exists>s. handleRestore dateOfISOString exampleBackup = Inr s \<and> idsArePositions (trades s))
   \<and> idsArePositions scenarioLedger
   \<and> idsArePositions (handleImportFromGoogleSheet [(scenarioLong, StatusClosed)] scenarioLedger)"
proof -
  have v: "isValidBackup exampleBackup"
    by (simp add: isValidBackup_def exampleBackup_def)
  have "list_all (\<lambda>t. dateOfISOString (date t) \<noteq> None) (the (bTrades exampleBackup))"
    by (simp add: exampleBackup_def exampleBackup_dates)
  with v obtain s where s: "handleRestore dateOfISOString exampleBackup = Inr s"
    using handleRestore_Inr by blast
  have l: "idsArePositions scenarioLedger"
    unfolding scenarioLedger_def
    using ledger_ids_positional[of scenarioShort "handleAddCompleteTrade scenarioLong []"]
    by blast
  show ?thesis
    using s l
      ledger_ids_positional[of scenarioLong scenarioLedger
        "withIdStatus scenarioLong 2 StatusOpen" 1 dateOfISOString exampleBackup s
        "[(scenarioLong, StatusClosed)]"]
    by blast
qed

section \<open>Metrics\<close>

lemma foldl_jsAdd_defined:
  "list_all (\<lambda>t. pnl t \<noteq> None) ts \<Longrightarrow>
   foldl (\<lambda>acc t. jsAdd acc (pnl t)) (Some a) ts = Some (a + sum_list (map (\<lambda>t. orZero (pnl t)) ts))"
  by (induction ts arbitrary: a) (auto simp add: jsAdd_def orZero_def)

lemma sumPnl_defined:
  "list_all (\<lambda>t. pnl t \<noteq> None) ts \<Longrightarrow> sumPnl ts = Some (sum_list (map (\<lambda>t. orZero (pnl t)) ts))"
  unfolding sumPnl_def using foldl_jsAdd_defined[of ts 0] by simp

lemma pnlPositive_defined: "list_all (\<lambda>t. pnl t \<noteq> None) (filter pnlPositive ts)"
  by (induction ts) (auto simp add: pnlPositive_def split: option.splits)

lemma pnlNotPositive_defined: "list_all (\<lambda>t. pnl t \<noteq> None) (filter pnlNotPositive ts)"
  by (induction ts) (auto simp add: pnlNotPositive_def split: option.splits)

lemma filter_closed_and: "filter P (filter (\<lambda>t. status t = StatusClosed) ts) = filter (\<lambda>t. status t = StatusClosed \<and> P t) ts"
  by (induction ts) auto

lemma profitFactor_general:
  "profitFactor (calculateMetrics ts capital) =
     Some (if losingPnl ts = 0 then 0 else \<bar>winningPnl ts / losingPnl ts\<bar>)"
proof (cases "filter (\<lambda>t. status t = StatusClosed) ts = []")
  case True
  then have "filter (\<lambda>t. status t = StatusClosed \<and> pnlNotPositive t) ts = []"
    using filter_closed_and[of pnlNotPositive ts] by simp
  then have "losingPnl ts = 0" by (simp add: losingPnl_def)
  with True show ?thesis by (simp add: calculateMetrics_def)
next
  case False
  let ?c = "filter (\<lambda>t. status t = StatusClosed) ts"
  have w: "sumPnl (filter pnlPositive ?c) = Some (winningPnl ts)"
    using sumPnl_defined[OF pnlPositive_defined, of ?c]
    by (simp add: winningPnl_def filter_closed_and)
  have l: "sumPnl (filter pnlNotPositive ?c) = Some (losingPnl ts)"
    using sumPnl_defined[OF pnlNotPositive_defined, of ?c]
    by (simp add: losingPnl_def filter_closed_and)
  from False w l show ?thesis
    by (simp add: calculateMetrics_def Let_def case_prod_beta)
qed

lemma rates_sum:
  assumes ne: "filter (\<lambda>t. status t = StatusClosed) ts \<noteq> []"
    and dfn: "list_all (\<lambda>t. status t = StatusClosed \<longrightarrow> pnl t \<noteq> None) ts"
  shows "winRate (calculateMetrics ts capital) + lossRate (calculateMetrics ts capital) = 100"
proof -
  let ?c = "filter (\<lambda>t. status t = StatusClosed) ts"
  have "list_all (\<lambda>t. pnl t \<noteq> None) ?c"
    using dfn by (induction ts) auto
  then have "filter pnlNotPositive ?c = filter (\<lambda>t. \<not> pnlPositive t) ?c"
    by (intro filter_cong) (auto simp add: list_all_iff pnlPositive_def pnlNotPositive_def)
  then have "length (filter pnlPositive ?c) + length (filter pnlNotPositive ?c) = length ?c"
    using sum_length_filter_compl[of pnlPositive ?c] by simp
  then have s: "(of_nat (length (filter pnlPositive ?c)) :: rat)
      + of_nat (length (filter pnlNotPositive ?c)) = of_nat (length ?c)"
    by (metis of_nat_add)
  have n: "(of_nat (length ?c) :: rat) \<noteq> 0" using ne by simp
  have "(of_nat (length (filter pnlPositive ?c)) / of_nat (length ?c)) * (100::rat)
      + (of_nat (length (filter pnlNotPositive ?c)) / of_nat (length ?c)) * 100
      = ((of_nat (length (filter pnlPositive ?c)) + of_nat (length (filter pnlNotPositive ?c))) / of_nat (length ?c)) * 100"
    by (simp add: add_divide_distrib distrib_right)
  also have "\<dots> = 100" using s n by simp
  finally show ?thesis using ne
    by (simp add: calculateMetrics_def Let_def case_prod_beta)
qed

lemma counts_sum:
  assumes ne: "filter (\<lambda>t. status t = StatusClosed) ts \<noteq> []"
    and dfn: "list_all (\<lambda>t. status t = StatusClosed \<longrightarrow> pnl t \<noteq> None) ts"
  shows "totalWins (calculateMetrics ts capital) + totalLosses (calculateMetrics ts capital)
     = totalTrades (calculateMetrics ts capital)"
proof -
  let ?c = "filter (\<lambda>t. status t = StatusClosed) ts"
  have "list_all (\<lambda>t. pnl t \<noteq> None) ?c"
    using dfn by (induction ts) auto
  then have "filter pnlNotPositive ?c = filter (\<lambda>t. \<not> pnlPositive t) ?c"
    by (intro filter_cong) (auto simp add: list_all_iff pnlPositive_def pnlNotPositive_def)
  then have "length (filter pnlPositive ?c) + length (filter pnlNotPositive ?c) = length ?c"
    using sum_length_filter_compl[of pnlPositive ?c] by simp
  then show ?thesis using ne
    by (simp add: calculateMetrics_def Let_def case_prod_beta)
qed

lemma rates_zero:
  assumes "filter (\<lambda>t. status t = StatusClosed) ts = []"
  shows "winRate (calculateMetrics ts capital) = 0 \<and> lossRate (calculateMetrics ts capital) = 0"
  using assms by (simp add: calculateMetrics_def)


lemma scenarioLedger_eq:
  "scenarioLedger =
    [(withIdStatus scenarioLong 1 StatusClosed)\<lparr>pnl := Some 10\<rparr>,
     (withIdStatus scenarioShort 2 StatusClosed)\<lparr>pnl := Some 20\<rparr>]"
  by (simp add: scenarioLedger_def ledger_defs scenarioLong_def scenarioShort_def truthy_def)


lemmas scenario_defs = withIdStatus_def scenarioLong_def scenarioShort_def

lemmas metrics_defs = calculateMetrics_def sortByDate_def pnlPositive_def pnlNotPositive_def
  sumPnl_def jsAdd_def tradeName_def showNat.simps digitChar_def streakStep_def

lemma scenario_metrics:
  "winRate (calculateMetrics scenarioLedger 1000) = 100"
  "lossRate (calculateMetrics scenarioLedger 1000) = 0"
  "profitFactor (calculateMetrics scenarioLedger 1000) = Some 0"
  "equityChartData (calculateMetrics scenarioLedger 1000)
     = [(''Start'', Some 1000), (''Trade 1'', Some 1010), (''Trade 2'', Some 1030)]"
  "chartData (calculateMetrics scenarioLedger 1000)
     = [(''Start'', Some 0), (''Trade 1'', Some 10), (''Trade 2'', Some 30)]"
  by (simp_all add: scenarioLedger_eq scenario_defs metrics_defs)

text \<open>
  Claim C6. For every list of trades the profit factor is the absolute value of the sum of
  the winning pnl of the closed trades over the sum of their losing pnl, and 0 when the
  losing sum is 0. The two trades of the scenario, entered as closed trades, get the pnl 10
  and 20, a win rate of 100, a profit factor of 0, and with a capital of 1000 the equity curve
  1000, 1010, 1030.
\<close>

theorem profit_factor_formula:
  "profitFactor (calculateMetrics ts capital) =
     Some (if losingPnl ts = 0 then 0 else \<bar>winningPnl ts / losingPnl ts\<bar>)
   \<and> map pnl scenarioLedger = [Some 10, Some 20]
   \<and> winRate (calculateMetrics scenarioLedger 1000) = 100
   \<and> profitFactor (calculateMetrics scenarioLedger 1000) = Some 0
   \<and> map snd (equityChartData (calculateMetrics scenarioLedger 1000))
       = [Some 1000, Some 1010, Some 1030]"
proof (intro conjI)
  show "profitFactor (calculateMetrics ts capital) =
     Some (if losingPnl ts = 0 then 0 else \<bar>winningPnl ts / losingPnl ts\<bar>)"
    by (rule profitFactor_general)
  show "map pnl scenarioLedger = [Some 10, Some 20]"
    by (simp add: scenarioLedger_eq scenario_defs)
  show "winRate (calculateMetrics scenarioLedger 1000) = 100"
    by (rule scenario_metrics)
  show "profitFactor (calculateMetrics scenarioLedger 1000) = Some 0"
    by (rule scenario_metrics)
  show "map snd (equityChartData (calculateMetrics scenarioLedger 1000))
       = [Some 1000, Some 1010, Some 1030]"
    by (simp only: scenario_metrics) simp
qed

text \<open>
  Claim C10, as amended. When the list has a closed trade and every closed trade has a pnl,
  the win rate and the loss rate add up to 100 and every closed trade counts in one of the
  two buckets; a trade with a pnl is a win or a loss and never both. Without a closed trade
  both rates are 0.
\<close>

theorem win_loss_rates:
  "(filter (\<lambda>t. status t = StatusClosed) ts \<noteq> []
      \<and> list_all (\<lambda>t. status t = StatusClosed \<longrightarrow> pnl t \<noteq> None) ts
    \<longrightarrow> winRate (calculateMetrics ts capital) + lossRate (calculateMetrics ts capital) = 100
      \<and> totalWins (calculateMetrics ts capital) + totalLosses (calculateMetrics ts capital)
          = totalTrades (calculateMetrics ts capital))
   \<and> (pnl t \<noteq> None \<longrightarrow> pnlPositive t \<noteq> pnlNotPositive t)
   \<and> (filter (\<lambda>t. status t = StatusClosed) ts = []
    \<longrightarrow> winRate (calculateMetrics ts capital) = 0 \<and> lossRate (calculateMetrics ts capital) = 0)"
proof -
  have "pnl t \<noteq> None \<longrightarrow> pnlPositive t \<noteq> pnlNotPositive t"
    by (auto simp add: pnlPositive_def pnlNotPositive_def)
  then show ?thesis
    using rates_sum[of ts capital] counts_sum[of ts capital] rates_zero[of ts capital] by blast
qed

theorem win_loss_rates_witness:
  "filter (\<lambda>t. status t = StatusClosed) scenarioLedger \<noteq> []
   \<and> list_all (\<lambda>t. status t = StatusClosed \<longrightarrow> pnl t \<noteq> None) scenarioLedger
   \<and> winRate (calculateMetrics scenarioLedger 1000) + lossRate (calculateMetrics scenarioLedger 1000)
       = 100
   \<and> pnl (hd scenarioLedger) \<noteq> None
   \<and> pnlPositive (hd scenarioLedger) \<noteq> pnlNotPositive (hd scenarioLedger)
   \<and> filter (\<lambda>t. status t = StatusClosed) (handleOpenTrade scenarioLong []) = []
   \<and> winRate (calculateMetrics (handleOpenTrade scenarioLong []) 1000) = 0
   \<and> lossRate (calculateMetrics (handleOpenTrade scenarioLong []) 1000) = 0"
proof -
  have a: "filter (\<lambda>t. status t = StatusClosed) scenarioLedger \<noteq> []"
    "list_all (\<lambda>t. status t = StatusClosed \<longrightarrow> pnl t \<noteq> None) scenarioLedger"
    "pnl (hd scenarioLedger) \<noteq> None"
    by (simp_all add: scenarioLedger_eq scenario_defs)
  have b: "filter (\<lambda>t. status t = StatusClosed) (handleOpenTrade scenarioLong []) = []"
    by (simp add: handleOpenTrade_def getNextId_def sortByDate_def renumber_def scenario_defs)
  show ?thesis
    using a b win_loss_rates[where ts = scenarioLedger and t = "hd scenarioLedger" and capital = 1000]
      win_loss_rates[where ts = "handleOpenTrade scenarioLong []" and t = "hd scenarioLedger"
        and capital = 1000]
    by blast
qed

text \<open>
  The claim as stated fails on a closed trade without a pnl, which is counted in neither
  bucket: both rates are 0.
\<close>

theorem win_loss_rates_counterexample:
  "status (withIdStatus scenarioLong 1 StatusClosed) = StatusClosed
   \<and> winRate (calculateMetrics [withIdStatus scenarioLong 1 StatusClosed] 0)
       + lossRate (calculateMetrics [withIdStatus scenarioLong 1 StatusClosed] 0) = 0"
  by (simp add: scenario_defs metrics_defs)

section \<open>Import: numbers\<close>

lemma dropWhile_append_stop: "\<not> P y \<Longrightarrow> dropWhile P (xs @ y # ys) = dropWhile P xs @ y # ys"
  by (induction xs) auto

lemma takeWhile_append_stop: "\<not> P y \<Longrightarrow> takeWhile P (xs @ y # ys) = takeWhile P xs"
  by (induction xs) auto

lemma takeSign_append:
  "y \<noteq> CHR ''-'' \<Longrightarrow> y \<noteq> CHR ''+'' \<Longrightarrow>
   takeSign (xs @ y # ys) = (fst (takeSign xs), snd (takeSign xs) @ y # ys)"
  by (cases xs) (auto simp add: takeSign_def)

lemma point_not_digit: "\<not> isDigit (CHR ''.'')" "\<not> isWhiteSpace (CHR ''.'')"
  "\<not> isDigit (CHR '','')"
  by (simp_all add: isDigit_def isWhiteSpace_def)

lemma isDigit_sepToPoint: "isDigit (sepToPoint c) = isDigit c"
  by (simp add: sepToPoint_def point_not_digit)

lemma sepToPoint_digit: "isDigit c \<Longrightarrow> sepToPoint c = c"
  using point_not_digit by (auto simp add: sepToPoint_def)

lemma takeWhile_digits_map: "takeWhile isDigit (map sepToPoint b) = takeWhile isDigit b"
  by (induction b) (auto simp add: isDigit_sepToPoint sepToPoint_digit)

lemma dropWhile_digits_map: "dropWhile isDigit (map sepToPoint b) = map sepToPoint (dropWhile isDigit b)"
  by (induction b) (auto simp add: isDigit_sepToPoint)

lemma takeSign_map: "takeSign (map sepToPoint r) = (fst (takeSign r), map sepToPoint (snd (takeSign r)))"
  by (cases r) (auto simp add: takeSign_def sepToPoint_def)

lemma takeExponent_map: "takeExponent (map sepToPoint r) = takeExponent r"
  by (cases r) (auto simp add: takeExponent_def takeSign_map takeWhile_digits_map sepToPoint_def
      case_prod_beta Let_def)

lemma takeExponent_append:
  "r \<noteq> [] \<Longrightarrow> takeExponent (r @ CHR ''.'' # b) = takeExponent r"
  by (cases r) (auto simp add: takeExponent_def takeSign_append takeWhile_append_stop
      point_not_digit case_prod_beta Let_def)

lemma takeFraction_append:
  "r \<noteq> [] \<Longrightarrow> hd r \<noteq> CHR ''.'' \<Longrightarrow> takeFraction (r @ CHR ''.'' # b) = ([], r @ CHR ''.'' # b)"
  by (cases r) (auto simp add: takeFraction_def)

lemma set_takeSign: "set (snd (takeSign xs)) \<subseteq> set xs"
  by (cases xs) (auto simp add: takeSign_def)

lemma parseFloat_after_point:
  assumes "CHR ''.'' \<notin> set a"
  shows "parseFloat (a @ CHR ''.'' # map sepToPoint b) = parseFloat (a @ CHR ''.'' # b)"
proof -
  let ?a1 = "dropWhile isWhiteSpace a"
  let ?a2 = "snd (takeSign ?a1)"
  let ?r = "dropWhile isDigit ?a2"
  have "set ?r \<subseteq> set ?a2" by (auto dest: set_dropWhileD)
  also have "\<dots> \<subseteq> set ?a1" by (rule set_takeSign)
  also have "\<dots> \<subseteq> set a" by (auto dest: set_dropWhileD)
  finally have sub: "set ?r \<subseteq> set a" .
  show ?thesis
  proof (cases "?r = []")
    case True
    then show ?thesis
      by (simp add: parseFloat_def dropWhile_append_stop takeWhile_append_stop takeSign_append
          point_not_digit case_prod_beta takeFraction_def takeWhile_digits_map
          dropWhile_digits_map takeExponent_map Let_def)
  next
    case False
    then have "hd ?r \<in> set a" using sub by (meson hd_in_set subsetD)
    then have h: "hd ?r \<noteq> CHR ''.''" using assms by auto
    from False h show ?thesis
      by (simp add: parseFloat_def dropWhile_append_stop takeWhile_append_stop takeSign_append
          point_not_digit case_prod_beta takeFraction_append takeExponent_append Let_def)
  qed
qed

lemma replaceFirst_absent: "a \<notin> set t \<Longrightarrow> replaceFirst a b t = t"
  by (induction t) auto

lemma replaceFirst_split:
  "a \<in> set t \<Longrightarrow> \<exists>p q. t = p @ a # q \<and> a \<notin> set p \<and> replaceFirst a b t = p @ b # q"
proof (induction t)
  case Nil
  then show ?case by simp
next
  case (Cons c t)
  show ?case
  proof (cases "c = a")
    case True
    then have "c # t = [] @ a # t \<and> a \<notin> set [] \<and> replaceFirst a b (c # t) = [] @ b # t"
      by simp
    then show ?thesis by blast
  next
    case False
    with Cons obtain p q where "t = p @ a # q" "a \<notin> set p" "replaceFirst a b t = p @ b # q"
      by auto
    with False have "c # t = (c # p) @ a # q \<and> a \<notin> set (c # p)
        \<and> replaceFirst a b (c # t) = (c # p) @ b # q"
      by simp
    then show ?thesis by blast
  qed
qed

lemma map_sepToPoint_id: "CHR '','' \<notin> set p \<Longrightarrow> map sepToPoint p = p"
  by (induction p) (auto simp add: sepToPoint_def)

lemma parseFloat_replaceFirst:
  assumes "CHR ''.'' \<notin> set t"
  shows "parseFloat (replaceFirst (CHR '','') (CHR ''.'') t) = parseFloat (map sepToPoint t)"
proof (cases "CHR '','' \<in> set t")
  case False
  then show ?thesis by (simp add: replaceFirst_absent map_sepToPoint_id)
next
  case True
  then obtain p q where t: "t = p @ CHR '','' # q" and p: "CHR '','' \<notin> set p"
    and r: "replaceFirst (CHR '','') (CHR ''.'') t = p @ CHR ''.'' # q"
    using replaceFirst_split by blast
  from assms t have "CHR ''.'' \<notin> set p" by simp
  then have "parseFloat (p @ CHR ''.'' # map sepToPoint q) = parseFloat (p @ CHR ''.'' # q)"
    by (rule parseFloat_after_point)
  moreover have "map sepToPoint t = p @ CHR ''.'' # map sepToPoint q"
    using t p by (simp add: map_sepToPoint_id sepToPoint_def)
  ultimately show ?thesis using r by simp
qed

lemma lastIndexOf_snoc:
  "lastIndexOf (s @ [x]) c = (if x = c then int (length s) else lastIndexOf s c)"
  by (simp add: lastIndexOf_def enumerate_append_eq)

lemma lastIndexOf_bounds: "- 1 \<le> lastIndexOf s c \<and> lastIndexOf s c < int (length s)"
proof (induction s rule: rev_induct)
  case Nil
  then show ?case by (simp add: lastIndexOf_def)
next
  case (snoc x s)
  then show ?case by (auto simp add: lastIndexOf_snoc)
qed

lemma lastIndexOf_present: "(lastIndexOf s c > - 1) = (c \<in> set s)"
proof (induction s rule: rev_induct)
  case Nil
  then show ?case by (simp add: lastIndexOf_def)
next
  case (snoc x s)
  then show ?case using lastIndexOf_bounds[of s c] by (auto simp add: lastIndexOf_snoc)
qed

lemma last_separator:
  "CHR '','' \<in> set s \<Longrightarrow> CHR ''.'' \<in> set s \<Longrightarrow>
   (lastIndexOf s (CHR '','') > lastIndexOf s (CHR ''.'')) = (last (filter isSeparator s) = CHR '','')"
proof (induction s rule: rev_induct)
  case Nil
  then show ?case by simp
next
  case (snoc x s)
  show ?case
  proof (cases "isSeparator x")
    case True
    then show ?thesis
      using lastIndexOf_bounds[of s "CHR '',''"] lastIndexOf_bounds[of s "CHR ''.''"]
      by (auto simp add: lastIndexOf_snoc isSeparator_def)
  next
    case False
    then have "CHR '','' \<in> set s" "CHR ''.'' \<in> set s"
      using snoc.prems by (auto simp add: isSeparator_def)
    moreover from this have "filter isSeparator s \<noteq> []"
      by (auto simp add: filter_empty_conv isSeparator_def)
    ultimately show ?thesis
      using snoc.IH False by (auto simp add: lastIndexOf_snoc isSeparator_def)
  qed
qed

lemma last_separator_cases:
  "CHR ''.'' \<in> set s \<Longrightarrow>
   last (filter isSeparator s) = CHR '','' \<or> last (filter isSeparator s) = CHR ''.''"
proof -
  assume "CHR ''.'' \<in> set s"
  then have "filter isSeparator s \<noteq> []"
    by (auto simp add: filter_empty_conv isSeparator_def)
  then have "last (filter isSeparator s) \<in> set (filter isSeparator s)" by (rule last_in_set)
  then show ?thesis by (auto simp add: isSeparator_def)
qed

lemma normalizeSeparators_spec: "parseFloat (normalizeSeparators s) = specNumber s"
proof (cases "CHR '','' \<in> set s")
  case False
  then show ?thesis
    using lastIndexOf_present[of s "CHR '',''"]
    by (simp add: normalizeSeparators_def specNumber_def)
next
  case comma: True
  show ?thesis
  proof (cases "CHR ''.'' \<in> set s")
    case False
    then have f: "filter (\<lambda>c. c = CHR '','' \<or> \<not> isSeparator c) s = s"
      by (auto simp add: filter_id_conv isSeparator_def)
    have "(\<lambda>c. if c = CHR '','' then CHR ''.'' else c) = sepToPoint"
      by (auto simp add: sepToPoint_def)
    with f False comma show ?thesis
      using lastIndexOf_present[of s "CHR '',''"] lastIndexOf_present[of s "CHR ''.''"]
        parseFloat_replaceFirst[of s]
      by (simp add: normalizeSeparators_def specNumber_def readWithDecimalPoint_def)
  next
    case period: True
    have both: "lastIndexOf s (CHR '','') > - 1" "lastIndexOf s (CHR ''.'') > - 1"
      using comma period lastIndexOf_present by simp_all
    show ?thesis
    proof (cases "last (filter isSeparator s) = CHR '',''")
      case True
      have f: "filter (\<lambda>c. c = CHR '','' \<or> \<not> isSeparator c) s = filter (\<lambda>c. c \<noteq> CHR ''.'') s"
        by (rule filter_cong) (auto simp add: isSeparator_def)
      have m: "(\<lambda>c. if c = CHR '','' then CHR ''.'' else c) = sepToPoint"
        by (auto simp add: sepToPoint_def)
      have "parseFloat (replaceFirst (CHR '','') (CHR ''.'') (filter (\<lambda>c. c \<noteq> CHR ''.'') s))
          = parseFloat (map sepToPoint (filter (\<lambda>c. c \<noteq> CHR ''.'') s))"
        by (rule parseFloat_replaceFirst) simp
      with True comma period both f m show ?thesis
        using last_separator[OF comma period]
        by (simp add: normalizeSeparators_def specNumber_def readWithDecimalPoint_def)
    next
      case False
      then have l: "last (filter isSeparator s) = CHR ''.''"
        using last_separator_cases[OF period] by blast
      have f: "filter (\<lambda>c. c = CHR ''.'' \<or> \<not> isSeparator c) s = filter (\<lambda>c. c \<noteq> CHR '','') s"
        by (rule filter_cong) (auto simp add: isSeparator_def)
      have m: "map (\<lambda>c. if c = CHR ''.'' then CHR ''.'' else c) = (\<lambda>xs. xs)"
        by (rule ext) (simp add: map_idI)
      from False l comma period both f show ?thesis
        using last_separator[OF comma period]
        by (simp add: normalizeSeparators_def specNumber_def readWithDecimalPoint_def m)
    qed
  qed
qed

lemma filter_dropWhile_ws:
  "(\<And>c. P c \<Longrightarrow> \<not> isWhiteSpace c) \<Longrightarrow> filter P (dropWhile isWhiteSpace s) = filter P s"
  by (induction s) auto

lemma filter_trim:
  assumes "\<And>c. P c \<Longrightarrow> \<not> isWhiteSpace c"
  shows "filter P (trim s) = filter P s"
proof -
  have "filter P (trim s) = rev (filter P (dropWhile isWhiteSpace (rev (dropWhile isWhiteSpace s))))"
    by (simp add: trim_def rev_filter)
  also have "\<dots> = rev (filter P (rev (dropWhile isWhiteSpace s)))"
    using assms by (simp add: filter_dropWhile_ws)
  also have "\<dots> = filter P (dropWhile isWhiteSpace s)" by (simp add: rev_filter)
  also have "\<dots> = filter P s" using assms by (simp add: filter_dropWhile_ws)
  finally show ?thesis .
qed

lemma numeric_not_space: "isNumericChar c \<Longrightarrow> \<not> isCurrencyOrSpace c"
  by (auto simp add: isNumericChar_def isCurrencyOrSpace_def isDigit_def isWhiteSpace_def Let_def)

lemma numeric_not_ws: "isNumericChar c \<Longrightarrow> \<not> isWhiteSpace c"
  using numeric_not_space by (auto simp add: isCurrencyOrSpace_def)

lemma digit_chars:
  "char_of (48 :: nat) = CHR ''0''" "char_of (49 :: nat) = CHR ''1''"
  "char_of (50 :: nat) = CHR ''2''" "char_of (51 :: nat) = CHR ''3''"
  "char_of (52 :: nat) = CHR ''4''" "char_of (53 :: nat) = CHR ''5''"
  "char_of (54 :: nat) = CHR ''6''" "char_of (55 :: nat) = CHR ''7''"
  "char_of (56 :: nat) = CHR ''8''" "char_of (57 :: nat) = CHR ''9''"
  by (simp_all add: char_of_eq_iff)

lemma isDigit_set: "isDigit c = (c \<in> set ''0123456789'')"
proof
  assume "isDigit c"
  then have "48 \<le> (of_char c :: nat) \<and> (of_char c :: nat) \<le> 57"
    by (simp add: isDigit_def Let_def)
  then have "(of_char c :: nat) \<in> {48, 49, 50, 51, 52, 53, 54, 55, 56, 57}"
    by (simp only: insert_iff empty_iff) arith
  then have "char_of (of_char c :: nat) \<in> char_of ` {48, 49, 50, 51, 52, 53, 54, 55, 56, 57 :: nat}"
    by (rule imageI)
  then show "c \<in> set ''0123456789''" by (simp add: digit_chars)
next
  assume "c \<in> set ''0123456789''"
  then show "isDigit c" by (auto simp add: isDigit_def)
qed

text \<open>The sanitizing keeps the digits, the separators and the minus sign, and nothing else.\<close>

lemma isNumericChar_plain: "isNumericChar c = isPlainNumberChar c"
  by (auto simp add: isNumericChar_def isPlainNumberChar_def isDigit_set)

lemma sanitize_any: "filter isNumericChar (trim raw) = filter isPlainNumberChar raw"
proof -
  have "filter isNumericChar (trim raw) = filter isNumericChar raw"
    by (rule filter_trim) (rule numeric_not_ws)
  also have "\<dots> = filter isPlainNumberChar raw"
    by (intro filter_cong) (simp_all add: isNumericChar_plain)
  finally show ?thesis .
qed

text \<open>
  On every cell that is not blank: the characters other than digits, separators and the
  minus sign are removed, whatever they are, and the rest is read by the rule of the
  separators.
\<close>

lemma parseNumericValue_any:
  assumes "trim raw \<noteq> []"
  shows "parseNumericValue (Some raw) fieldName isRequired =
     (case specNumber (filter isPlainNumberChar raw) of
        None \<Rightarrow> if isRequired then Inl (NotAValidNumber fieldName raw) else Inr None
      | Some v \<Rightarrow> Inr (Some v))"
proof -
  from assms have "raw \<noteq> []" by (auto simp add: trim_def)
  with assms show ?thesis
    by (simp add: parseNumericValue_def normalizeSeparators_spec sanitize_any)
qed

lemma sanitize_spec:
  assumes "\<forall>c\<in>set raw. isPlainNumberChar c \<or> isCurrencyOrSpace c"
  shows "filter isPlainNumberChar raw = filter (\<lambda>c. \<not> isCurrencyOrSpace c) raw"
  using assms numeric_not_space by (intro filter_cong) (auto simp add: isNumericChar_plain)

lemmas csv_number_defs = parseNumericValue_def normalizeSeparators_def lastIndexOf_def trim_def
  isNumericChar_def

lemmas spec_number_defs = parseNumberSpec_def specNumber_def isCurrencyOrSpace_def
  readWithDecimalPoint_def isSeparator_def

lemma parseNumericValue_examples:
  "parseNumericValue (Some ''1.234,56'') fieldName True = Inr (Some (123456 / 100))"
  "parseNumericValue (Some ''1,234.56'') fieldName True = Inr (Some (123456 / 100))"
  "parseNumericValue (Some []) fieldName True = Inl (FieldEmpty fieldName)"
  "parseNumericValue (Some '' $-1.234,56 '') fieldName True = Inr (Some (- (123456 / 100)))"
  by (simp_all add: csv_number_defs char_defs number_defs)

lemma exponent_examples:
  "parseNumericValue (Some ''1e3'') fieldName True = Inr (Some 13)"
  "parseNumberSpec ''1e3'' = Some 1000"
  "parseNumericValue (Some ''1.5E-05'') fieldName True = Inr (Some (3 / 2))"
  "parseNumberSpec ''1.5E-05'' = Some (15 / 1000000)"
  by (simp_all add: csv_number_defs spec_number_defs char_defs number_defs)

text \<open>
  Claim C3, as amended. On an input string written with digits, separators, the minus sign,
  currency symbols and white space, and not blank, \<open>parseNumericValue\<close> gives what the
  policy of the specification gives: currency symbols and white space are stripped; when
  both separators occur, the one that occurs last is the decimal point and the other one is
  removed; when only the comma occurs it is the decimal point; otherwise the standard parse.
  So \<open>1.234,56\<close> and \<open>1,234.56\<close> are both 1234.56, and the empty string fails on a
  required field.
\<close>

theorem parseNumber_policy:
  "(trim raw \<noteq> [] \<and> (\<forall>c\<in>set raw. isPlainNumberChar c \<or> isCurrencyOrSpace c) \<longrightarrow>
      parseNumericValue (Some raw) fieldName isRequired =
        (case parseNumberSpec raw of
           None \<Rightarrow> if isRequired then Inl (NotAValidNumber fieldName raw) else Inr None
         | Some v \<Rightarrow> Inr (Some v)))
   \<and> parseNumericValue (Some ''1.234,56'') fieldName True = Inr (Some (123456 / 100))
   \<and> parseNumericValue (Some ''1,234.56'') fieldName True = Inr (Some (123456 / 100))
   \<and> parseNumericValue (Some []) fieldName True = Inl (FieldEmpty fieldName)"
proof -
  have "parseNumericValue (Some raw) fieldName isRequired =
        (case parseNumberSpec raw of
           None \<Rightarrow> if isRequired then Inl (NotAValidNumber fieldName raw) else Inr None
         | Some v \<Rightarrow> Inr (Some v))"
    if ne: "trim raw \<noteq> []" and ch: "\<forall>c\<in>set raw. isPlainNumberChar c \<or> isCurrencyOrSpace c"
    using parseNumericValue_any[OF ne] by (simp add: parseNumberSpec_def sanitize_spec[OF ch])
  then show ?thesis by (simp add: parseNumericValue_examples)
qed

theorem parseNumber_policy_witness:
  "trim '' $-1.234,56 '' \<noteq> []
   \<and> list_all (\<lambda>c. isPlainNumberChar c \<or> isCurrencyOrSpace c) '' $-1.234,56 ''
   \<and> parseNumberSpec '' $-1.234,56 '' = Some (- (123456 / 100))
   \<and> parseNumericValue (Some '' $-1.234,56 '') ''Entrada'' True = Inr (Some (- (123456 / 100)))"
proof -
  have a: "trim '' $-1.234,56 '' \<noteq> []"
    by (simp add: trim_def char_defs)
  have b: "list_all (\<lambda>c. isPlainNumberChar c \<or> isCurrencyOrSpace c) '' $-1.234,56 ''"
    by (simp add: isPlainNumberChar_def isCurrencyOrSpace_def char_defs)
  have c: "parseNumericValue (Some '' $-1.234,56 '') ''Entrada'' True
      = Inr (Some (- (123456 / 100)))"
    by (rule parseNumericValue_examples)
  from b have b': "\<forall>c\<in>set '' $-1.234,56 ''. isPlainNumberChar c \<or> isCurrencyOrSpace c"
    unfolding list_all_iff .
  show ?thesis
    using a b b' c parseNumber_policy[of "'' $-1.234,56 ''" "''Entrada''" True]
    by (auto split: option.splits)
qed

text \<open>
  The claim as stated fails on a number written with an exponent: the letter is removed with
  the other characters that are not digits, separators or the minus sign, so \<open>1e3\<close> is read
  as 13 and \<open>1.5E-05\<close> as 1.5, where the standard parse of the policy reads 1000 and
  0.000015.
\<close>

theorem parseNumber_policy_counterexample:
  "parseNumericValue (Some ''1e3'') ''Entrada'' True = Inr (Some 13)
   \<and> parseNumberSpec ''1e3'' = Some 1000
   \<and> parseNumericValue (Some ''1.5E-05'') ''Entrada'' True = Inr (Some (3 / 2))
   \<and> parseNumberSpec ''1.5E-05'' = Some (15 / 1000000)"
  by (simp add: exponent_examples)
section \<open>Filter by id\<close>

lemmas filter_defs = filteredTrades_def idBounds_def trim_def

lemma idBounds_examples:
  "idBounds ''abc'' = None"
  "idBounds ''4-19'' = Some (4, 19)"
  by (simp_all add: idBounds_def char_defs number_defs)

lemma tenTradeLedger_ids: "map id' tenTradeLedger = [1, 2, 3, 4, 5, 6, 7, 8, 9, 10]"
  by (simp add: tenTradeLedger_def withIdStatus_def)

lemma filteredTrades_abc: "filteredTrades dateOfString tenTradeLedger (idFilterOnly ''abc'') = []"
  by (simp add: filteredTrades_def idFilterOnly_def idBounds_examples trim_def char_defs)

lemma filteredTrades_4_19:
  "map id' (filteredTrades dateOfString tenTradeLedger (idFilterOnly ''4-19''))
     = [4, 5, 6, 7, 8, 9, 10]"
  by (simp add: filteredTrades_def idFilterOnly_def idBounds_examples trim_def char_defs
      tenTradeLedger_def withIdStatus_def)

text \<open>
  Claim C5, as amended. A non-blank id filter that does not parse into bounds gives the empty
  list, whatever the other fields of the filter are; one that parses gives the trades with an
  id within the bounds. On a ledger of ten trades \<open>abc\<close> gives the empty list, and \<open>4-19\<close>
  gives the seven trades with the ids 4 to 10.
\<close>

theorem id_filter_result:
  "(trim (tradeId filters) \<noteq> [] \<and> idBounds (trim (tradeId filters)) = None
      \<longrightarrow> filteredTrades dateOfString ts filters = [])
   \<and> (trim (tradeId filters) \<noteq> [] \<and> idBounds (trim (tradeId filters)) = Some (lo, hi)
      \<longrightarrow> filteredTrades dateOfString ts filters = filter (\<lambda>t. lo \<le> id' t \<and> id' t \<le> hi) ts)
   \<and> idBounds ''abc'' = None
   \<and> filteredTrades dateOfString tenTradeLedger (idFilterOnly ''abc'') = []
   \<and> idBounds ''4-19'' = Some (4, 19)
   \<and> map id' (filteredTrades dateOfString tenTradeLedger (idFilterOnly ''4-19''))
       = [4, 5, 6, 7, 8, 9, 10]"
proof (intro conjI)
  show "trim (tradeId filters) \<noteq> [] \<and> idBounds (trim (tradeId filters)) = None
      \<longrightarrow> filteredTrades dateOfString ts filters = []"
    by (simp add: filteredTrades_def Let_def)
  show "trim (tradeId filters) \<noteq> [] \<and> idBounds (trim (tradeId filters)) = Some (lo, hi)
      \<longrightarrow> filteredTrades dateOfString ts filters = filter (\<lambda>t. lo \<le> id' t \<and> id' t \<le> hi) ts"
    by (simp add: filteredTrades_def Let_def)
qed (rule idBounds_examples filteredTrades_abc filteredTrades_4_19)+

theorem id_filter_result_witness:
  "trim (tradeId (idFilterOnly ''19-4'')) \<noteq> []
   \<and> idBounds (trim (tradeId (idFilterOnly ''19-4''))) = None
   \<and> filteredTrades dateOfISOString tenTradeLedger (idFilterOnly ''19-4'') = []
   \<and> trim (tradeId (idFilterOnly '' 2-3 '')) \<noteq> []
   \<and> idBounds (trim (tradeId (idFilterOnly '' 2-3 ''))) = Some (2, 3)
   \<and> map id' (filteredTrades dateOfISOString tenTradeLedger (idFilterOnly '' 2-3 '')) = [2, 3]"
proof -
  have a: "trim (tradeId (idFilterOnly ''19-4'')) \<noteq> []"
    "idBounds (trim (tradeId (idFilterOnly ''19-4''))) = None"
    by (simp_all add: idFilterOnly_def trim_def idBounds_def char_defs number_defs)
  have b: "trim (tradeId (idFilterOnly '' 2-3 '')) \<noteq> []"
    "idBounds (trim (tradeId (idFilterOnly '' 2-3 ''))) = Some (2, 3)"
    by (simp_all add: idFilterOnly_def trim_def idBounds_def char_defs number_defs)
  have "filter (\<lambda>t. 2 \<le> id' t \<and> id' t \<le> 3) tenTradeLedger
      = [withIdStatus scenarioLong 2 StatusOpen, withIdStatus scenarioLong 3 StatusOpen]"
    by (simp add: tenTradeLedger_def withIdStatus_def)
  then have c: "map id' (filter (\<lambda>t. 2 \<le> id' t \<and> id' t \<le> 3) tenTradeLedger) = [2, 3]"
    by (simp add: withIdStatus_def)
  show ?thesis
    using a b c
      id_filter_result[of "idFilterOnly ''19-4''" dateOfISOString tenTradeLedger 2 3]
      id_filter_result[of "idFilterOnly '' 2-3 ''" dateOfISOString tenTradeLedger 2 3]
    by simp
qed

text \<open>
  The scenario as stated fails: on the ledger of ten trades the filter \<open>4-19\<close> is a valid
  range and its result is not empty.
\<close>

theorem id_filter_counterexample:
  "length tenTradeLedger = 10
   \<and> filteredTrades dateOfISOString tenTradeLedger (idFilterOnly ''4-19'') \<noteq> []"
proof -
  have "map id' (filteredTrades dateOfISOString tenTradeLedger (idFilterOnly ''4-19'')) \<noteq> []"
    by (simp add: filteredTrades_4_19)
  then show ?thesis by (auto simp add: tenTradeLedger_def)
qed

section \<open>Import: rows\<close>

lemmas date_row_defs = parseDate_def isDateSeparator_def expandYear_def outside_def trim_def

lemma parseDate_examples:
  "parseDate (Some ''31/01/2024'') = Inr 1706659200000"
  "parseDate (Some ''2024-01-31'') = Inr 1706659200000"
  "parseDate (Some ''31-31-2024'') = Inl (CouldNotParseDate ''31-31-2024'')"
  "parseDate (Some ''31/02/2024'') = Inr 1709337600000"
  "parseDate (Some ''02/03/2024'') = Inr 1709337600000"
  "parseDate (Some ''15/01/24'') = Inr 1705276800000"
  "parseDate (Some ''15/01/2024'') = Inr 1705276800000"
  "parseDate (Some ''16/01/2024'') = Inr 1705363200000"
  by (simp_all add: date_row_defs char_defs number_defs utc_defs)

lemma iso_1709337600000: "toISOString 1709337600000 = ''2024-03-02T00:00:00.000Z''"
  by (simp add: iso_defs civil_defs char_defs)

lemmas row_defs = importRow_def tradeData_def parseDirection_def importJournal_def trimmedText_def
  orText_def

lemma importRow_zero_exit:
  "importRow exampleMapping exampleHeaders rowWithZeroExit =
     Inr (\<lparr>date = 1705276800000, asset = ''BTC/USDT'', direction = Long, entryPrice = 100,
           exitPrice = Some 0, size' = 1, pnl = Some (- 100), journal = [], analysis = None,
           stopLoss = None, takeProfit = None, leverage = Some []\<rparr>, StatusClosed)"
  by (simp add: row_defs exampleMapping_def exampleHeaders_def rowWithZeroExit_def
      parseDate_examples csv_number_defs char_defs number_defs)

lemma importRow_closed:
  "importRow exampleMapping exampleHeaders rowClosed =
     Inr (\<lparr>date = 1705363200000, asset = ''BTC/USDT'', direction = Short, entryPrice = 100,
           exitPrice = Some 90, size' = 2, pnl = Some 20, journal = [], analysis = None,
           stopLoss = None, takeProfit = None, leverage = Some []\<rparr>, StatusClosed)"
  by (simp add: row_defs exampleMapping_def exampleHeaders_def rowClosed_def
      parseDate_examples csv_number_defs char_defs number_defs)

lemma importRow_closed_with_pnl:
  "importRow mapping headers row = Inr (t, s) \<Longrightarrow>
   s = StatusClosed
   \<and> (\<exists>exit. exitPrice t = Some exit
        \<and> pnl t = Some (if direction t = Long then (exit - entryPrice t) * size' t
                        else (entryPrice t - exit) * size' t))"
  by (auto simp add: importRow_def Let_def split: sum.splits option.splits)

text \<open>A row whose exit price is not mapped, or is a blank cell, is skipped.\<close>

lemma importRow_needs_exit:
  assumes "case tradeData mapping headers row KExitPrice of None \<Rightarrow> True | Some v \<Rightarrow> trim v = []"
  shows "\<exists>e. importRow mapping headers row = Inl e"
  using assms
  by (auto simp add: importRow_def Let_def parseNumericValue_def split: sum.splits option.splits)

text \<open>
  Claim C4, at the input where the source departs from it. The 31st of February 2024 is not
  a day of the calendar (February 2024 has 29 days), yet \<open>31/02/2024\<close> is accepted and gives
  the time value of 2 March 2024, the same as \<open>02/03/2024\<close>: \<open>Date.UTC\<close> carries the
  overflow and the checks only bound the day by 31. The two forms of 31 January 2024 give the
  same date, and \<open>31-31-2024\<close> fails.
\<close>

theorem parseDate_accepts_31_february:
  "parseDate (Some ''31/02/2024'') = Inr 1709337600000
   \<and> parseDate (Some ''02/03/2024'') = Inr 1709337600000
   \<and> toISOString 1709337600000 = ''2024-03-02T00:00:00.000Z''
   \<and> daysInMonth 2024 2 = 29
   \<and> parseDate (Some ''31/01/2024'') = parseDate (Some ''2024-01-31'')
   \<and> parseDate (Some ''31-31-2024'') = Inl (CouldNotParseDate ''31-31-2024'')"
  by (simp add: parseDate_examples iso_1709337600000 daysInMonth_def InLeapYear_def)

section \<open>Quick add\<close>

lemma threeDigits_nth:
  "threeDigits cs = (3 \<le> length cs \<and> isDigit (cs ! 0) \<and> isDigit (cs ! 1) \<and> isDigit (cs ! 2))"
proof (cases cs)
  case Nil
  then show ?thesis by (simp add: threeDigits_def)
next
  case (Cons a as)
  note c1 = this
  show ?thesis
  proof (cases as)
    case Nil
    with c1 show ?thesis by (simp add: threeDigits_def)
  next
    case (Cons b bs)
    note c2 = this
    show ?thesis
    proof (cases bs)
      case Nil
      with c1 c2 show ?thesis by (simp add: threeDigits_def)
    next
      case (Cons c cs')
      with c1 c2 show ?thesis by (simp add: threeDigits_def)
    qed
  qed
qed

lemma isGroupingComma_at:
  assumes "pre \<noteq> []"
  shows "isGroupingComma (pre @ c # cs) (length pre)
     = (c = CHR '','' \<and> isDigit (last pre) \<and> threeDigits cs)"
proof -
  have l: "(pre @ c # cs) ! (length pre - 1) = last pre"
    using assms by (simp add: nth_append last_conv_nth)
  have n: "(pre @ c # cs) ! (length pre + k) = (c # cs) ! k" for k
    by (simp add: nth_append)
  have n1: "(pre @ c # cs) ! Suc (length pre) = cs ! 0"
    using n[of 1] by simp
  have n2: "(pre @ c # cs) ! (Suc (Suc (length pre))) = cs ! 1"
    using n[of 2] by (simp add: numeral_2_eq_2)
  have n3: "(pre @ c # cs) ! (Suc (Suc (Suc (length pre)))) = cs ! 2"
    using n[of 3] by (simp add: numeral_3_eq_3 numeral_2_eq_2)
  have p: "0 < length pre" using assms by simp
  show ?thesis
    unfolding isGroupingComma_def threeDigits_nth
    using l p n[of 0] n1 n2 n3
    by (auto simp add: numeral_3_eq_3 numeral_2_eq_2)
qed

lemma stripAfter_positions:
  "pre \<noteq> [] \<Longrightarrow>
   stripAfter (last pre) cs
     = map (\<lambda>i. (pre @ cs) ! i)
         (filter (\<lambda>i. \<not> isGroupingComma (pre @ cs) i) [length pre..<length pre + length cs])"
proof (induction cs arbitrary: pre)
  case Nil
  then show ?case by simp
next
  case (Cons c cs)
  define L where "L = [Suc (length pre)..<Suc (length pre) + length cs]"
  have "pre @ [c] \<noteq> []" by simp
  from Cons.IH[OF this]
  have ih: "stripAfter c cs
     = map (\<lambda>i. (pre @ c # cs) ! i) (filter (\<lambda>i. \<not> isGroupingComma (pre @ c # cs) i) L)"
    by (simp add: L_def)
  have u: "[length pre..<length pre + length (c # cs)] = length pre # L"
    by (simp add: L_def upt_rec)
  have h: "(pre @ c # cs) ! length pre = c" by simp
  show ?case
    unfolding u using ih h isGroupingComma_at[OF Cons.prems, of c cs]
    by auto
qed

lemma stripGrouping_positions:
  "stripGrouping text
     = map (\<lambda>i. text ! i) (filter (\<lambda>i. \<not> isGroupingComma text i) [0..<length text])"
proof (cases "text")
  case Nil
  then show ?thesis by (simp add: stripGrouping_def)
next
  case (Cons c cs)
  define L where "L = [Suc 0..<Suc 0 + length cs]"
  have "stripAfter (last (c # [])) cs
     = map (\<lambda>i. ((c # []) @ cs) ! i)
         (filter (\<lambda>i. \<not> isGroupingComma ((c # []) @ cs) i)
            [length (c # [])..<length (c # []) + length cs])"
    by (rule stripAfter_positions) simp
  then have s: "stripAfter c cs
     = map (\<lambda>i. (c # cs) ! i) (filter (\<lambda>i. \<not> isGroupingComma (c # cs) i) L)"
    by (simp add: L_def)
  have z: "\<not> isGroupingComma (c # cs) 0" by (simp add: isGroupingComma_def)
  have u: "[0..<length (c # cs)] = 0 # L" by (simp add: L_def upt_rec)
  show ?thesis
    unfolding Cons u using s z by (simp add: stripGrouping_def)
qed

lemmas paste_defs = stripGrouping_def threeDigits_def pastedNumericValue_def part_def orText_def
  trim_def

lemma strip_examples:
  "stripGrouping lineWithZeroExit = lineWithZeroExit"
  "stripGrouping lineWithBadDate = lineWithBadDate"
  "stripGrouping ''1,2345'' = ''12345''"
  "stripGrouping ''100,110'' = ''100110''"
  by (simp_all add: lineWithZeroExit_def lineWithBadDate_def paste_defs char_defs)

lemma parts_examples:
  "splitOn (\<lambda>c. c = CHR '','') lineWithZeroExit =
     [''2024-01-15'', '' BTC/USDT'', '' Long'', '' 10x'', '' 100'', '' 0'', '' 90'', '' 120'',
      '' 1'', '' breakout'']"
  "splitOn (\<lambda>c. c = CHR '','') lineWithBadDate =
     [''not a date'', '' BTC/USDT'', '' Long'', '' 10x'', '' 100'', '' 110'', '' 90'', '' 120'',
      '' 1'']"
  by (simp_all add: lineWithZeroExit_def lineWithBadDate_def)

lemma date_examples:
  "dateOfISOString ''2024-01-15'' = Some 1705276800000"
  "dateOfISOString ''not a date'' = None"
  "toISOString 1705276800000 = ''2024-01-15T00:00:00.000Z''"
  by (simp_all add: isoparse_defs utc_defs iso_defs civil_defs char_defs)

lemma parse_zero_exit:
  "parsePastedData dateOfISOString lineWithZeroExit =
     Some \<lparr>pDate = ''2024-01-15'', pAsset = ''BTC/USDT'', pDirection = Long, pLeverage = ''10x'',
           pEntryPrice = Some 100, pExitPrice = Some 0, pStopLoss = Some 90,
           pTakeProfit = Some 120, pSize = Some 1, pJournal = ''breakout''\<rparr>"
  by (simp add: parsePastedData_def strip_examples parts_examples date_examples isoDay_def
      pastedNumericValue_def part_def orText_def trim_def char_defs number_defs)

lemma parse_bad_date: "parsePastedData dateOfISOString lineWithBadDate = None"
  by (simp add: parsePastedData_def strip_examples parts_examples date_examples
      part_def orText_def trim_def char_defs)

lemma handleOpenTrade_first: "handleOpenTrade c [] = [withIdStatus c 1 StatusOpen]"
  by (simp add: handleOpenTrade_def getNextId_def sortByDate_def renumber_def withIdStatus_def)

lemma orText_trimmed: "orText (Some v) [] = v"
  by (simp add: orText_def)

lemma part_of_trimmed:
  "part (map trim (take 9 parts)) i =
     (if i < 9 \<and> i < length parts then Some (trim (parts ! i)) else None)"
  by (simp add: part_def)

lemma parsePastedData_short:
  "length (pastedParts pasted) < 8 \<Longrightarrow> parsePastedData dateOfString pasted = None"
  by (simp add: parsePastedData_def pastedParts_def Let_def)

lemma parsePastedData_long:
  assumes "8 \<le> length (pastedParts pasted)"
  shows "parsePastedData dateOfString pasted =
     (case dateOfString (trim (pastedParts pasted ! 0)) of
        None \<Rightarrow> None
      | Some t \<Rightarrow>
          Some \<lparr>pDate = isoDay (toISOString t),
                pAsset = trim (pastedParts pasted ! 1),
                pDirection =
                  (if includesStr (toLowerCase (trim (pastedParts pasted ! 2))) ''long''
                   then Long else Short),
                pLeverage = trim (pastedParts pasted ! 3),
                pEntryPrice = pastedNumericValue (Some (trim (pastedParts pasted ! 4))),
                pExitPrice = pastedNumericValue (Some (trim (pastedParts pasted ! 5))),
                pStopLoss = pastedNumericValue (Some (trim (pastedParts pasted ! 6))),
                pTakeProfit = pastedNumericValue (Some (trim (pastedParts pasted ! 7))),
                pSize = (if 8 < length (pastedParts pasted)
                         then pastedNumericValue (Some (trim (pastedParts pasted ! 8))) else None),
                pJournal = (if 9 < length (pastedParts pasted)
                            then trim (joinWith (CHR '','') (drop 9 (pastedParts pasted)))
                            else [])\<rparr>)"
proof -
  define ps where "ps = pastedParts pasted"
  have l: "8 \<le> length ps" using assms by (simp add: ps_def)
  have p: "part (map trim (take 9 ps)) i = Some (trim (ps ! i))" if "i < 8" for i
    using that l by (simp add: part_of_trimmed)
  have p8: "part (map trim (take 9 ps)) 8 = (if 8 < length ps then Some (trim (ps ! 8)) else None)"
    by (simp add: part_of_trimmed)
  have n: "pastedNumericValue None = None" by (simp add: pastedNumericValue_def)
  have u: "parsePastedData dateOfString pasted =
     (if length ps < 8 then None
      else case dateOfString (orText (part (map trim (take 9 ps)) 0) []) of
        None \<Rightarrow> None
      | Some t \<Rightarrow>
          Some \<lparr>pDate = isoDay (toISOString t),
                pAsset = orText (part (map trim (take 9 ps)) 1) [],
                pDirection =
                  (if includesStr (toLowerCase (orText (part (map trim (take 9 ps)) 2) []))
                        ''long''
                   then Long else Short),
                pLeverage = orText (part (map trim (take 9 ps)) 3) [],
                pEntryPrice = pastedNumericValue (part (map trim (take 9 ps)) 4),
                pExitPrice = pastedNumericValue (part (map trim (take 9 ps)) 5),
                pStopLoss = pastedNumericValue (part (map trim (take 9 ps)) 6),
                pTakeProfit = pastedNumericValue (part (map trim (take 9 ps)) 7),
                pSize = pastedNumericValue (part (map trim (take 9 ps)) 8),
                pJournal = (if length ps > 9 then trim (joinWith (CHR '','') (drop 9 ps))
                            else [])\<rparr>)"
    unfolding parsePastedData_def pastedParts_def ps_def Let_def by (rule refl)
  have "parsePastedData dateOfString pasted =
     (case dateOfString (trim (ps ! 0)) of
        None \<Rightarrow> None
      | Some t \<Rightarrow>
          Some \<lparr>pDate = isoDay (toISOString t),
                pAsset = trim (ps ! 1),
                pDirection =
                  (if includesStr (toLowerCase (trim (ps ! 2))) ''long'' then Long else Short),
                pLeverage = trim (ps ! 3),
                pEntryPrice = pastedNumericValue (Some (trim (ps ! 4))),
                pExitPrice = pastedNumericValue (Some (trim (ps ! 5))),
                pStopLoss = pastedNumericValue (Some (trim (ps ! 6))),
                pTakeProfit = pastedNumericValue (Some (trim (ps ! 7))),
                pSize = (if 8 < length ps
                         then pastedNumericValue (Some (trim (ps ! 8))) else None),
                pJournal = (if 9 < length ps
                            then trim (joinWith (CHR '','') (drop 9 ps)) else [])\<rparr>)"
    unfolding u using l
    by (simp only: p p8 n orText_trimmed if_distrib[of pastedNumericValue] split: option.splits)
      (simp split: option.splits)
  then show ?thesis unfolding ps_def .
qed

lemma parsePastedData_bad_date:
  "8 \<le> length (pastedParts pasted) \<Longrightarrow> dateOfString (trim (pastedParts pasted ! 0)) = None \<Longrightarrow>
   parsePastedData dateOfString pasted = None"
  by (simp add: parsePastedData_long)

lemma parsePastedData_fields:
  assumes "8 \<le> length (pastedParts pasted)"
    and "dateOfString (trim (pastedParts pasted ! 0)) = Some t"
  shows "parsePastedData dateOfString pasted =
     Some \<lparr>pDate = isoDay (toISOString t),
           pAsset = trim (pastedParts pasted ! 1),
           pDirection =
             (if includesStr (toLowerCase (trim (pastedParts pasted ! 2))) ''long''
              then Long else Short),
           pLeverage = trim (pastedParts pasted ! 3),
           pEntryPrice = pastedNumericValue (Some (trim (pastedParts pasted ! 4))),
           pExitPrice = pastedNumericValue (Some (trim (pastedParts pasted ! 5))),
           pStopLoss = pastedNumericValue (Some (trim (pastedParts pasted ! 6))),
           pTakeProfit = pastedNumericValue (Some (trim (pastedParts pasted ! 7))),
           pSize = (if 8 < length (pastedParts pasted)
                    then pastedNumericValue (Some (trim (pastedParts pasted ! 8))) else None),
           pJournal = (if 9 < length (pastedParts pasted)
                       then trim (joinWith (CHR '','') (drop 9 (pastedParts pasted))) else [])\<rparr>"
  using assms by (simp add: parsePastedData_long)

text \<open>
  Claim C8, as amended. The pre-strip removes exactly the commas that have a digit before
  them and three digits after them (more digits may follow); the line is then split at the
  commas. With fewer than 8 parts, and also when the platform does not read the first part
  as a date, no candidate is produced; otherwise the trimmed parts map in order to date,
  asset, direction, leverage, entry price, exit price, stop loss, take profit and size, the
  parts after the ninth joined by commas are the journal, and the direction is long when the
  lower-cased token contains \<open>long\<close> and short otherwise.
\<close>

theorem quick_add_grammar:
  "stripGrouping pasted
     = map (\<lambda>i. pasted ! i) (filter (\<lambda>i. \<not> isGroupingComma pasted i) [0..<length pasted])
   \<and> (length (pastedParts pasted) < 8 \<longrightarrow> parsePastedData dateOfString pasted = None)
   \<and> (8 \<le> length (pastedParts pasted) \<and> dateOfString (trim (pastedParts pasted ! 0)) = None
      \<longrightarrow> parsePastedData dateOfString pasted = None)
   \<and> (8 \<le> length (pastedParts pasted) \<and> dateOfString (trim (pastedParts pasted ! 0)) = Some t
      \<longrightarrow> parsePastedData dateOfString pasted =
        Some \<lparr>pDate = isoDay (toISOString t),
              pAsset = trim (pastedParts pasted ! 1),
              pDirection =
                (if includesStr (toLowerCase (trim (pastedParts pasted ! 2))) ''long''
                 then Long else Short),
              pLeverage = trim (pastedParts pasted ! 3),
              pEntryPrice = pastedNumericValue (Some (trim (pastedParts pasted ! 4))),
              pExitPrice = pastedNumericValue (Some (trim (pastedParts pasted ! 5))),
              pStopLoss = pastedNumericValue (Some (trim (pastedParts pasted ! 6))),
              pTakeProfit = pastedNumericValue (Some (trim (pastedParts pasted ! 7))),
              pSize = (if 8 < length (pastedParts pasted)
                       then pastedNumericValue (Some (trim (pastedParts pasted ! 8))) else None),
              pJournal = (if 9 < length (pastedParts pasted)
                          then trim (joinWith (CHR '','') (drop 9 (pastedParts pasted)))
                          else [])\<rparr>)"
  using stripGrouping_positions[of pasted] parsePastedData_short[of pasted dateOfString]
    parsePastedData_bad_date[of pasted dateOfString] parsePastedData_fields[of pasted dateOfString t]
  by blast

lemma pastedParts_examples:
  "pastedParts lineWithZeroExit =
     [''2024-01-15'', '' BTC/USDT'', '' Long'', '' 10x'', '' 100'', '' 0'', '' 90'', '' 120'',
      '' 1'', '' breakout'']"
  "pastedParts lineWithBadDate =
     [''not a date'', '' BTC/USDT'', '' Long'', '' 10x'', '' 100'', '' 110'', '' 90'', '' 120'',
      '' 1'']"
  by (simp_all add: pastedParts_def strip_examples parts_examples)

theorem quick_add_grammar_witness:
  "8 \<le> length (pastedParts lineWithZeroExit)
   \<and> dateOfISOString (trim (pastedParts lineWithZeroExit ! 0)) = Some 1705276800000
   \<and> parsePastedData dateOfISOString lineWithZeroExit = Some pastedZeroExit
   \<and> length (pastedParts ''2024-01-15, BTC/USDT, long'') < 8
   \<and> parsePastedData dateOfISOString ''2024-01-15, BTC/USDT, long'' = None
   \<and> 8 \<le> length (pastedParts lineWithBadDate)
   \<and> dateOfISOString (trim (pastedParts lineWithBadDate ! 0)) = None
   \<and> parsePastedData dateOfISOString lineWithBadDate = None"
proof -
  have a: "8 \<le> length (pastedParts lineWithZeroExit)"
    "dateOfISOString (trim (pastedParts lineWithZeroExit ! 0)) = Some 1705276800000"
    by (simp_all add: pastedParts_examples trim_def char_defs date_examples)
  have b: "length (pastedParts ''2024-01-15, BTC/USDT, long'') < 8"
    by (simp add: pastedParts_def paste_defs char_defs)
  have c: "8 \<le> length (pastedParts lineWithBadDate)"
    "dateOfISOString (trim (pastedParts lineWithBadDate ! 0)) = None"
    by (simp_all add: pastedParts_examples trim_def char_defs date_examples)
  have d: "parsePastedData dateOfISOString lineWithZeroExit = Some pastedZeroExit"
    by (simp add: parse_zero_exit pastedZeroExit_def)
  show ?thesis
    using a b c d
      quick_add_grammar[of lineWithZeroExit dateOfISOString 1705276800000]
      quick_add_grammar[of "''2024-01-15, BTC/USDT, long''" dateOfISOString 0]
      quick_add_grammar[of lineWithBadDate dateOfISOString 0]
    by simp
qed

text \<open>
  The claim as stated fails on a line of nine parts whose first part is not a date: no
  candidate is produced. And a comma followed by four digits is stripped as well.
\<close>

theorem quick_add_grammar_counterexample:
  "length (splitOn (\<lambda>c. c = CHR '','') (stripGrouping lineWithBadDate)) = 9
   \<and> parsePastedData dateOfISOString lineWithBadDate = None
   \<and> stripGrouping ''1,2345'' = ''12345''"
  by (simp add: strip_examples parts_examples parse_bad_date)

lemma paste_asks_open_trade:
  assumes "parsePastedData dateOfString pasted = Some d"
    and "pExitPrice d = None \<or> (\<exists>x. pExitPrice d = Some x \<and> x \<le> 0)"
    and "dateOfString (pDate d) = Some dt"
  shows "handlePasteDataChange dateOfString pasted = AskOpenTrade (openTradeOfPaste d dt) d"
  using assms by (auto simp add: handlePasteDataChange_def positive_def)

section \<open>Closed trades and their pnl\<close>

lemma tradeOk_id: "tradeOk (t\<lparr>id' := n\<rparr>) = tradeOk t"
  by (simp add: tradeOk_def)

lemma ledgerOk_enum:
  "list_all tradeOk (map (\<lambda>(index, t). t\<lparr>id' := int index + 1\<rparr>) (enumerate n ts))
     = list_all tradeOk ts"
  by (induction ts arbitrary: n) (simp_all add: tradeOk_id)

lemma ledgerOk_renumber: "ledgerOk (renumber ts) = ledgerOk ts"
  by (simp add: ledgerOk_def renumber_def ledgerOk_enum)

lemma ledgerOk_sortByDate: "ledgerOk (sortByDate ts) = ledgerOk ts"
  by (simp add: ledgerOk_def sortByDate_def list_all_iff)

lemma ledgerOk_append: "ledgerOk (xs @ [t]) = (ledgerOk xs \<and> tradeOk t)"
  by (simp add: ledgerOk_def)

lemma ledgerOk_open:
  "ledgerOk prev \<Longrightarrow> pnl c = None \<Longrightarrow> ledgerOk (handleOpenTrade c prev)"
  by (simp add: handleOpenTrade_def Let_def ledgerOk_renumber ledgerOk_sortByDate
      ledgerOk_append tradeOk_def withIdStatus_def)

lemma ledgerOk_add:
  "ledgerOk prev \<Longrightarrow> positive (exitPrice c) \<Longrightarrow> ledgerOk (handleAddCompleteTrade c prev)"
  by (simp add: handleAddCompleteTrade_def Let_def ledgerOk_renumber ledgerOk_sortByDate
      ledgerOk_append tradeOk_def withIdStatus_def split: option.splits)

lemma ledgerOk_update:
  "ledgerOk prev \<Longrightarrow> tradeOk u \<Longrightarrow> ledgerOk (handleUpdateTrade u prev)"
  by (simp add: handleUpdateTrade_def Let_def ledgerOk_renumber ledgerOk_sortByDate)
    (auto simp add: ledgerOk_def list_all_iff)

lemma ledgerOk_delete: "ledgerOk prev \<Longrightarrow> ledgerOk (handleConfirmDelete n prev)"
  by (simp add: handleConfirmDelete_def Let_def ledgerOk_renumber ledgerOk_sortByDate)
    (auto simp add: ledgerOk_def list_all_iff)

lemma positive_truthy: "positive v \<Longrightarrow> truthy v"
  by (auto simp add: positive_def truthy_def split: option.splits)

lemma positive_orUndefined: "positive (orUndefined v) = positive v"
  by (auto simp add: orUndefined_def positive_def truthy_def split: option.splits)

lemma blank_not_number: "trim s = [] \<Longrightarrow> parseFloat s = None"
proof -
  assume "trim s = []"
  then have "dropWhile isWhiteSpace (rev (dropWhile isWhiteSpace s)) = []"
    by (simp add: trim_def)
  then have "\<forall>c\<in>set (dropWhile isWhiteSpace s). isWhiteSpace c"
    by (simp add: dropWhile_eq_Nil_conv)
  then have d: "dropWhile isWhiteSpace s = []"
    by (metis dropWhile_eq_Nil_conv dropWhile_idem)
  show ?thesis
    unfolding parseFloat_def d by (simp add: takeSign_def takeFraction_def)
qed

lemma submit_open:
  "handleSubmit dateOfString ex req f = CallOpenTrade c \<Longrightarrow> pnl c = None \<and> exitPrice c = None"
  by (auto simp add: handleSubmit_def parsedData_def Let_def
      split: if_splits option.splits)

lemma submit_add:
  "handleSubmit dateOfString ex req f = CallAddCompleteTrade c \<Longrightarrow> positive (exitPrice c)"
  by (auto simp add: handleSubmit_def Let_def split: if_splits option.splits)

lemma calculatedPnl_defined:
  assumes "positive (parseFloat (fEntryPrice f))" "positive (parseFloat (fSize f))"
    "positive (parseFloat (fExitPrice f))"
  shows "calculatedPnl f \<noteq> None"
  using assms by (auto simp add: calculatedPnl_def positive_def split: option.splits)

lemma submit_update:
  assumes "handleSubmit dateOfString ex req f = CallUpdateTrade u"
  shows "tradeOk u"
proof -
  from assms have v: "validate ex req f"
    by (auto simp add: handleSubmit_def split: if_splits)
  then have pe: "positive (parseFloat (fEntryPrice f))" and ps: "positive (parseFloat (fSize f))"
    by (auto simp add: validate_def Let_def)
  show ?thesis
  proof (cases "positive (parseFloat (fExitPrice f))")
    case True
    then have "calculatedPnl f \<noteq> None" using pe ps by (rule calculatedPnl_defined[rotated 2])
    with True assms v show ?thesis
      by (auto simp add: handleSubmit_def parsedData_def Let_def tradeOk_def
          positive_orUndefined positive_truthy split: option.splits)
  next
    case False
    with assms v show ?thesis
      by (auto simp add: handleSubmit_def parsedData_def Let_def tradeOk_def
          positive_orUndefined split: option.splits)
  qed
qed

lemma submit_closed_cleared:
  "status existing = StatusClosed \<Longrightarrow> trim (fExitPrice f) = [] \<Longrightarrow>
   handleSubmit dateOfString (Some existing) req f = Rejected"
  by (simp add: handleSubmit_def validate_def Let_def)

lemma submit_update_cleared:
  assumes "handleSubmit dateOfString ex req f = CallUpdateTrade u" "trim (fExitPrice f) = []"
  shows "status u = StatusOpen \<and> pnl u = None \<and> exitPrice u = None"
proof -
  have "parseFloat (fExitPrice f) = None" using assms(2) by (rule blank_not_number)
  with assms(1) show ?thesis
    by (auto simp add: handleSubmit_def parsedData_def Let_def orUndefined_def truthy_def
        positive_def split: if_splits option.splits)
qed

text \<open>
  Claim C2, as amended. The operations the form reaches keep the invariant of the data model
  (a trade is closed exactly when its pnl is defined, and a pnl is stored only with an exit
  price above zero): opening a trade, adding a closed trade, updating and deleting; so do
  the open trade of a confirmed quick-add record and the update that stores the analysis of
  a trade. The form does not let the exit price of a closed trade be cleared: the submission
  is rejected and nothing is updated. An update that is submitted with a blank exit price, which can only be
  that of an open trade, has the status open, no pnl and no exit price.
\<close>

theorem closed_iff_pnl:
  "(ledgerOk prev \<and> handleSubmit dateOfString ex req f = CallOpenTrade c
      \<longrightarrow> ledgerOk (handleOpenTrade c prev))
   \<and> (ledgerOk prev \<and> handleSubmit dateOfString ex req f = CallAddCompleteTrade c
      \<longrightarrow> ledgerOk (handleAddCompleteTrade c prev))
   \<and> (ledgerOk prev \<and> handleSubmit dateOfString ex req f = CallUpdateTrade u
      \<longrightarrow> ledgerOk (handleUpdateTrade u prev))
   \<and> (ledgerOk prev \<longrightarrow> ledgerOk (handleConfirmDelete n prev))
   \<and> (ledgerOk prev \<longrightarrow> ledgerOk (handleOpenTrade (openTradeOfPaste d dt) prev))
   \<and> (ledgerOk prev \<and> tradeOk t
      \<longrightarrow> ledgerOk (handleUpdateTrade (t\<lparr>analysis := a\<rparr>) prev))
   \<and> (status existing = StatusClosed \<and> trim (fExitPrice f) = []
      \<longrightarrow> handleSubmit dateOfString (Some existing) req f = Rejected)
   \<and> (handleSubmit dateOfString ex req f = CallUpdateTrade u \<and> trim (fExitPrice f) = []
      \<longrightarrow> status u = StatusOpen \<and> pnl u = None \<and> exitPrice u = None)"
proof (intro conjI impI)
  assume "ledgerOk prev \<and> handleSubmit dateOfString ex req f = CallOpenTrade c"
  then show "ledgerOk (handleOpenTrade c prev)"
    using ledgerOk_open submit_open by blast
next
  assume "ledgerOk prev \<and> handleSubmit dateOfString ex req f = CallAddCompleteTrade c"
  then show "ledgerOk (handleAddCompleteTrade c prev)"
    using ledgerOk_add submit_add by blast
next
  assume "ledgerOk prev \<and> handleSubmit dateOfString ex req f = CallUpdateTrade u"
  then show "ledgerOk (handleUpdateTrade u prev)"
    using ledgerOk_update submit_update by blast
next
  assume "ledgerOk prev"
  then show "ledgerOk (handleConfirmDelete n prev)" by (rule ledgerOk_delete)
next
  assume "ledgerOk prev"
  then show "ledgerOk (handleOpenTrade (openTradeOfPaste d dt) prev)"
    by (rule ledgerOk_open) (simp add: openTradeOfPaste_def)
next
  assume "ledgerOk prev \<and> tradeOk t"
  then show "ledgerOk (handleUpdateTrade (t\<lparr>analysis := a\<rparr>) prev)"
    using ledgerOk_update[of prev "t\<lparr>analysis := a\<rparr>"] by (simp add: tradeOk_def)
next
  assume "status existing = StatusClosed \<and> trim (fExitPrice f) = []"
  then show "handleSubmit dateOfString (Some existing) req f = Rejected"
    using submit_closed_cleared by blast
next
  assume a: "handleSubmit dateOfString ex req f = CallUpdateTrade u \<and> trim (fExitPrice f) = []"
  then show "status u = StatusOpen" using submit_update_cleared by blast
  from a show "pnl u = None" using submit_update_cleared by blast
  from a show "exitPrice u = None" using submit_update_cleared by blast
qed

lemmas form_defs = handleSubmit_def validate_def parsedData_def calculatedPnl_def positive_def
  trim_def

lemma form_numbers:
  "parseFloat ''100'' = Some 100" "parseFloat ''110'' = Some 110" "parseFloat ''1'' = Some 1"
  "parseFloat ''90'' = Some 90" "parseFloat [] = None"
  by (simp_all add: number_defs char_defs)

lemma submit_examples:
  "handleSubmit dateOfISOString None False formOpen =
     CallOpenTrade \<lparr>date = 1705276800000, asset = ''BTC/USDT'', direction = Long,
       entryPrice = 100, exitPrice = None, size' = 1, pnl = None, journal = ''breakout'',
       analysis = None, stopLoss = Some 90, takeProfit = None, leverage = Some ''10x''\<rparr>"
  "handleSubmit dateOfISOString None False formClosed =
     CallAddCompleteTrade \<lparr>date = 1705276800000, asset = ''BTC/USDT'', direction = Long,
       entryPrice = 100, exitPrice = Some 110, size' = 1, pnl = None, journal = ''breakout'',
       analysis = None, stopLoss = Some 90, takeProfit = None, leverage = Some ''10x''\<rparr>"
  "handleSubmit dateOfISOString (Some openTradeNo3) False formClosed =
     CallUpdateTrade (openTradeNo3\<lparr>exitPrice := Some 110, pnl := Some 10, status := StatusClosed\<rparr>)"
  "handleSubmit dateOfISOString (Some openTradeNo3) False formOpen = CallUpdateTrade openTradeNo3"
  "handleSubmit dateOfISOString (Some (hd scenarioLedger)) False formOpen = Rejected"
  by (simp_all add: form_defs formOpen_def formClosed_def openTradeNo3_def form_numbers
      date_examples char_defs truthy_def orUndefined_def scenarioLedger_eq scenario_defs)

lemma scenarioLedger_ok: "ledgerOk scenarioLedger"
  by (simp add: ledgerOk_def tradeOk_def scenarioLedger_eq scenario_defs positive_def)

theorem closed_iff_pnl_witness:
  "ledgerOk scenarioLedger
   \<and> (\<exists>c. handleSubmit dateOfISOString None False formOpen = CallOpenTrade c
          \<and> ledgerOk (handleOpenTrade c scenarioLedger))
   \<and> (\<exists>c. handleSubmit dateOfISOString None False formClosed = CallAddCompleteTrade c
          \<and> ledgerOk (handleAddCompleteTrade c scenarioLedger))
   \<and> (\<exists>u. handleSubmit dateOfISOString (Some openTradeNo3) False formClosed = CallUpdateTrade u
          \<and> ledgerOk (handleUpdateTrade u scenarioLedger))
   \<and> ledgerOk (handleConfirmDelete 1 scenarioLedger)
   \<and> ledgerOk (handleOpenTrade (openTradeOfPaste pastedZeroExit 1705276800000) scenarioLedger)
   \<and> tradeOk (hd scenarioLedger)
   \<and> ledgerOk (handleUpdateTrade ((hd scenarioLedger)\<lparr>analysis := Some ''reviewed''\<rparr>)
         scenarioLedger)
   \<and> status (hd scenarioLedger) = StatusClosed
   \<and> trim (fExitPrice formOpen) = []
   \<and> handleSubmit dateOfISOString (Some (hd scenarioLedger)) False formOpen = Rejected
   \<and> (\<exists>u. handleSubmit dateOfISOString (Some openTradeNo3) False formOpen = CallUpdateTrade u
          \<and> status u = StatusOpen \<and> pnl u = None)"
proof -
  obtain c1 where c1: "handleSubmit dateOfISOString None False formOpen = CallOpenTrade c1"
    using submit_examples(1) by blast
  obtain c2 where c2: "handleSubmit dateOfISOString None False formClosed = CallAddCompleteTrade c2"
    using submit_examples(2) by blast
  obtain u3 where u3:
    "handleSubmit dateOfISOString (Some openTradeNo3) False formClosed = CallUpdateTrade u3"
    using submit_examples(3) by blast
  obtain u4 where u4:
    "handleSubmit dateOfISOString (Some openTradeNo3) False formOpen = CallUpdateTrade u4"
    using submit_examples(4) by blast
  have st: "status (hd scenarioLedger) = StatusClosed"
    by (simp add: scenarioLedger_eq scenario_defs)
  have bl: "trim (fExitPrice formOpen) = []"
    by (simp add: formOpen_def trim_def)
  note ok = scenarioLedger_ok
  have a: "ledgerOk (handleOpenTrade c1 scenarioLedger)"
    using ok c1
      closed_iff_pnl[where prev = scenarioLedger and dateOfString = dateOfISOString
        and ex = None and req = False and f = formOpen and c = c1]
    by blast
  have b: "ledgerOk (handleAddCompleteTrade c2 scenarioLedger)"
    using ok c2
      closed_iff_pnl[where prev = scenarioLedger and dateOfString = dateOfISOString
        and ex = None and req = False and f = formClosed and c = c2]
    by blast
  have c: "ledgerOk (handleUpdateTrade u3 scenarioLedger)"
    using ok u3
      closed_iff_pnl[where prev = scenarioLedger and dateOfString = dateOfISOString
        and ex = "Some openTradeNo3" and req = False and f = formClosed and u = u3]
    by blast
  have d: "ledgerOk (handleConfirmDelete 1 scenarioLedger)"
    using ok closed_iff_pnl[where prev = scenarioLedger and n = 1] by blast
  have h: "ledgerOk (handleOpenTrade (openTradeOfPaste pastedZeroExit 1705276800000)
      scenarioLedger)"
    using ok
      closed_iff_pnl[where prev = scenarioLedger and d = pastedZeroExit and dt = 1705276800000]
    by blast
  have tk: "tradeOk (hd scenarioLedger)"
    by (simp add: tradeOk_def scenarioLedger_eq scenario_defs positive_def)
  have i: "ledgerOk (handleUpdateTrade ((hd scenarioLedger)\<lparr>analysis := Some ''reviewed''\<rparr>)
      scenarioLedger)"
    using ok tk
      closed_iff_pnl[where prev = scenarioLedger and t = "hd scenarioLedger"
        and a = "Some ''reviewed''"]
    by blast
  have e: "handleSubmit dateOfISOString (Some (hd scenarioLedger)) False formOpen = Rejected"
    using st bl
      closed_iff_pnl[where existing = "hd scenarioLedger" and f = formOpen
        and dateOfString = dateOfISOString and req = False]
    by blast
  have g: "status u4 = StatusOpen \<and> pnl u4 = None"
    using u4 bl
      closed_iff_pnl[where dateOfString = dateOfISOString and ex = "Some openTradeNo3"
        and req = False and f = formOpen and u = u4]
    by blast
  from ok a b c d h tk i st bl e g c1 c2 u3 u4 show ?thesis by blast
qed

text \<open>
  The claim as stated fails where the exit price of a closed trade is cleared: the form
  rejects the submission, so no trade with the status open is produced.
\<close>

theorem closed_iff_pnl_counterexample:
  "status (hd scenarioLedger) = StatusClosed
   \<and> exitPrice (hd scenarioLedger) = Some 110
   \<and> pnl (hd scenarioLedger) = Some 10
   \<and> fExitPrice formOpen = []
   \<and> handleSubmit dateOfISOString (Some (hd scenarioLedger)) False formOpen = Rejected"
  by (simp add: submit_examples) (simp add: scenarioLedger_eq scenario_defs formOpen_def)

text \<open>
  The import of a sheet is not among the operations above. It gives the status closed to the
  whole ledger, so a trade that was open stays without a pnl and is closed all the same; and
  it imports a row with the exit price 0.
\<close>

lemma handleImport_rowClosed:
  "handleImport exampleMapping exampleHeaders [rowWithZeroExit, [''x''], rowClosed] =
     [(\<lparr>date = 1705276800000, asset = ''BTC/USDT'', direction = Long, entryPrice = 100,
        exitPrice = Some 0, size' = 1, pnl = Some (- 100), journal = [], analysis = None,
        stopLoss = None, takeProfit = None, leverage = Some []\<rparr>, StatusClosed),
      (\<lparr>date = 1705363200000, asset = ''BTC/USDT'', direction = Short, entryPrice = 100,
        exitPrice = Some 90, size' = 2, pnl = Some 20, journal = [], analysis = None,
        stopLoss = None, takeProfit = None, leverage = Some []\<rparr>, StatusClosed)]"
proof -
  have "importRow exampleMapping exampleHeaders [''x''] = Inl (InvalidDateFormat ''x'')"
    by (simp add: row_defs exampleMapping_def exampleHeaders_def date_row_defs char_defs)
  then show ?thesis
    by (simp add: handleImport_def List.map_filter_simps importRow_zero_exit importRow_closed)
qed

lemma import_closes_open_trade:
  "map status (handleOpenTrade (openTradeOfPaste pastedZeroExit 1705276800000) []) = [StatusOpen]
   \<and> map pnl (handleOpenTrade (openTradeOfPaste pastedZeroExit 1705276800000) []) = [None]
   \<and> map status
        (handleImportFromGoogleSheet
           (handleImport exampleMapping exampleHeaders [rowWithZeroExit, [''x''], rowClosed])
           (handleOpenTrade (openTradeOfPaste pastedZeroExit 1705276800000) []))
       = [StatusClosed, StatusClosed, StatusClosed]
   \<and> map pnl
        (handleImportFromGoogleSheet
           (handleImport exampleMapping exampleHeaders [rowWithZeroExit, [''x''], rowClosed])
           (handleOpenTrade (openTradeOfPaste pastedZeroExit 1705276800000) []))
       = [None, Some (- 100), Some 20]"
  by (simp add: handleImport_rowClosed handleOpenTrade_first handleImportFromGoogleSheet_def
      withIdStatus_def openTradeOfPaste_def pastedZeroExit_def sortByDate_def renumber_def)

section \<open>Backup and restore: the round trip\<close>

lemma restored_enum:
  "list_all (\<lambda>t. dateOfString (toISOString (date t)) = Some (date t)) ts \<Longrightarrow>
   map (\<lambda>(index, t). restoredTrade index t (the (dateOfString (date t))))
     (enumerate n (map backupTrade ts))
   = map (\<lambda>(index, t). t\<lparr>id' := int index + 1\<rparr>) (enumerate n ts)"
  by (induction ts arbitrary: n) (auto simp add: restoredTrade_def backupTrade_def)

lemma backup_dates_read:
  "list_all (\<lambda>t. dateOfString (toISOString (date t)) = Some (date t)) ts \<Longrightarrow>
   list_all (\<lambda>t. dateOfString (date t) \<noteq> None) (map backupTrade ts)"
  by (induction ts) (auto simp add: backupTrade_def)

lemma eraseId_update: "eraseId (t\<lparr>id' := n\<rparr>) = eraseId t"
  by (simp add: eraseId_def)

lemma update_eraseId: "(eraseId t)\<lparr>id' := n\<rparr> = t\<lparr>id' := n\<rparr>"
  by (simp add: eraseId_def)

lemma erase_enum:
  "map eraseId (map (\<lambda>(index, t). t\<lparr>id' := int index + 1\<rparr>) (enumerate n ts)) = map eraseId ts"
  by (induction ts arbitrary: n) (simp_all add: eraseId_update)

lemma erase_renumber: "map eraseId (renumber ts) = map eraseId ts"
  unfolding renumber_def by (rule erase_enum)

lemma enum_erased:
  "map (\<lambda>(index, t). t\<lparr>id' := int index + 1\<rparr>) (enumerate n (map eraseId ts))
   = map (\<lambda>(index, t). t\<lparr>id' := int index + 1\<rparr>) (enumerate n ts)"
  by (induction ts arbitrary: n) (simp_all add: update_eraseId)

lemma renumber_erased: "renumber (map eraseId ts) = renumber ts"
  unfolding renumber_def by (rule enum_erased)

lemma date_eraseId: "date (eraseId t) = date t"
  by (simp add: eraseId_def)

lemma insort_eraseId:
  "map eraseId (insort_key date x xs) = insort_key date (eraseId x) (map eraseId xs)"
  by (induction xs) (simp_all add: date_eraseId)

lemma sort_eraseId: "map eraseId (sortByDate ts) = sortByDate (map eraseId ts)"
  unfolding sortByDate_def by (induction ts) (simp_all add: insort_eraseId)

lemma resequence_renumbered: "renumber (sortByDate (renumber ts)) = renumber (sortByDate ts)"
proof -
  have "map eraseId (sortByDate (renumber ts)) = map eraseId (sortByDate ts)"
    by (simp add: sort_eraseId erase_renumber)
  then have "renumber (map eraseId (sortByDate (renumber ts)))
      = renumber (map eraseId (sortByDate ts))"
    by simp
  then show ?thesis by (simp add: renumber_erased)
qed

lemma mset_resequence:
  "mset (map eraseId (renumber (sortByDate ts))) = mset (map eraseId ts)"
  by (simp add: erase_renumber sortByDate_def)

lemma restore_of_backup:
  assumes "list_all (\<lambda>t. dateOfString (toISOString (date t)) = Some (date t)) (trades s)"
    and "activeStrategyId s \<noteq> Some []"
  shows "handleRestore dateOfString (handleCreateBackup now s)
     = Inr \<lparr>trades = renumber (sortByDate (trades s)), initialCapital = initialCapital s,
            strategies = strategies s, activeStrategyId = activeStrategyId s\<rparr>"
proof -
  have v: "isValidBackup (handleCreateBackup now s)"
    by (simp add: isValidBackup_def handleCreateBackup_def)
  have d: "list_all (\<lambda>t. dateOfString (date t) \<noteq> None)
      (the (bTrades (handleCreateBackup now s)))"
    using backup_dates_read[OF assms(1)] by (simp add: handleCreateBackup_def)
  have r: "map (\<lambda>(index, t). restoredTrade index t (the (dateOfString (date t))))
      (enumerate 0 (the (bTrades (handleCreateBackup now s)))) = renumber (trades s)"
    using restored_enum[OF assms(1), of 0] by (simp add: handleCreateBackup_def renumber_def)
  have a: "(case bActiveStrategyId (handleCreateBackup now s) of
        None \<Rightarrow> None | Some a \<Rightarrow> if a = [] then None else Some a) = activeStrategyId s"
    using assms(2) by (auto simp add: handleCreateBackup_def split: option.splits)
  show ?thesis
    unfolding handleRestore_def Let_def r a
    using v d by (simp add: resequence_renumbered handleCreateBackup_def)
qed

text \<open>
  Claim C9, as amended. For every ledger state whose active strategy id is null or a
  non-empty string, restoring the backup made of the state gives the same trades up to ids
  (the ids are those of the renumbering in date order), the same capital, the same strategies
  and the same active strategy id, provided the platform reads the ISO string of every date
  back to that date.
\<close>

theorem backup_round_trip:
  "list_all (\<lambda>t. dateOfString (toISOString (date t)) = Some (date t)) (trades s)
     \<and> activeStrategyId s \<noteq> Some []
   \<longrightarrow> (\<exists>s'. handleRestore dateOfString (handleCreateBackup now s) = Inr s'
          \<and> mset (map eraseId (trades s')) = mset (map eraseId (trades s))
          \<and> trades s' = renumber (sortByDate (trades s))
          \<and> initialCapital s' = initialCapital s
          \<and> strategies s' = strategies s
          \<and> activeStrategyId s' = activeStrategyId s)"
proof
  assume "list_all (\<lambda>t. dateOfString (toISOString (date t)) = Some (date t)) (trades s)
     \<and> activeStrategyId s \<noteq> Some []"
  then have "handleRestore dateOfString (handleCreateBackup now s)
     = Inr \<lparr>trades = renumber (sortByDate (trades s)), initialCapital = initialCapital s,
            strategies = strategies s, activeStrategyId = activeStrategyId s\<rparr>"
    using restore_of_backup by blast
  then show "\<exists>s'. handleRestore dateOfString (handleCreateBackup now s) = Inr s'
          \<and> mset (map eraseId (trades s')) = mset (map eraseId (trades s))
          \<and> trades s' = renumber (sortByDate (trades s))
          \<and> initialCapital s' = initialCapital s
          \<and> strategies s' = strategies s
          \<and> activeStrategyId s' = activeStrategyId s"
    using mset_resequence[of "trades s"] by simp
qed

lemma scenario_dates_round_trip:
  "dateOfISOString (toISOString 1704067200000) = Some 1704067200000"
  "dateOfISOString (toISOString 1704153600000) = Some 1704153600000"
  by (simp_all add: iso_defs civil_defs isoparse_defs utc_defs char_defs)

theorem backup_round_trip_witness:
  "list_all (\<lambda>t. dateOfISOString (toISOString (date t)) = Some (date t)) (trades exampleState)
   \<and> activeStrategyId exampleState \<noteq> Some []
   \<and> (\<exists>s'. handleRestore dateOfISOString (handleCreateBackup 1706745600000 exampleState) = Inr s'
          \<and> mset (map eraseId (trades s')) = mset (map eraseId (trades exampleState))
          \<and> initialCapital s' = 1000
          \<and> strategies s' = strategies exampleState
          \<and> activeStrategyId s' = Some ''2024-01-01T10:00:00.000Z'')"
proof -
  have a: "list_all (\<lambda>t. dateOfISOString (toISOString (date t)) = Some (date t))
      (trades exampleState)"
    by (simp add: exampleState_def scenarioLedger_eq scenario_defs scenario_dates_round_trip)
  have b: "activeStrategyId exampleState \<noteq> Some []"
    "activeStrategyId exampleState = Some ''2024-01-01T10:00:00.000Z''"
    "initialCapital exampleState = 1000"
    by (simp_all add: exampleState_def)
  show ?thesis
    using a b backup_round_trip[of dateOfISOString exampleState 1706745600000]
    by auto
qed

text \<open>
  The claim as stated fails on a state whose active strategy id is the empty string: the
  restore turns it into null.
\<close>

theorem backup_round_trip_counterexample:
  "activeStrategyId emptyIdState = Some []
   \<and> handleRestore dateOfISOString (handleCreateBackup 1706745600000 emptyIdState)
       = Inr \<lparr>trades = [], initialCapital = 1000, strategies = [], activeStrategyId = None\<rparr>"
  by (simp add: emptyIdState_def handleRestore_def handleCreateBackup_def isValidBackup_def
      renumber_def sortByDate_def)

section \<open>An exit price of zero or less\<close>

subsection \<open>Quick add\<close>

text \<open>
  A pasted line whose exit price is missing or is zero or less is not rejected: the user is
  asked to confirm an open trade, and the trade that the confirmation hands to the ledger
  has no exit price and no pnl. Whatever the ledger holds, it then holds the same trades
  and this one with the status open.
\<close>

lemma paste_open_trade_stored:
  assumes "parsePastedData dateOfString pasted = Some d"
    and "pExitPrice d = None \<or> (\<exists>x. pExitPrice d = Some x \<and> x \<le> 0)"
    and "dateOfString (pDate d) = Some dt"
  shows "handlePasteDataChange dateOfString pasted = AskOpenTrade (openTradeOfPaste d dt) d"
    and "exitPrice (openTradeOfPaste d dt) = None"
    and "pnl (openTradeOfPaste d dt) = None"
    and "mset (map eraseId (handleOpenTrade (openTradeOfPaste d dt) prev))
         = mset (map eraseId prev) + {#withIdStatus (openTradeOfPaste d dt) 0 StatusOpen#}"
proof -
  show "handlePasteDataChange dateOfString pasted = AskOpenTrade (openTradeOfPaste d dt) d"
    using assms by (rule paste_asks_open_trade)
  show "exitPrice (openTradeOfPaste d dt) = None" by (simp add: openTradeOfPaste_def)
  show "pnl (openTradeOfPaste d dt) = None" by (simp add: openTradeOfPaste_def)
  show "mset (map eraseId (handleOpenTrade (openTradeOfPaste d dt) prev))
         = mset (map eraseId prev) + {#withIdStatus (openTradeOfPaste d dt) 0 StatusOpen#}"
    unfolding handleOpenTrade_def Let_def mset_resequence
    by (simp add: eraseId_def withIdStatus_def)
qed

subsection \<open>Import of a sheet\<close>

text \<open>
  The import has no check of the sign of the exit price: every row that is imported is a
  closed trade whose pnl is computed from the exit price read, also when that price is zero
  or less.
\<close>

lemma importRow_nonpositive_exit:
  assumes "importRow mapping headers row = Inr (t, s)" and "exitPrice t = Some x" and "x \<le> 0"
  shows "s = StatusClosed"
    and "pnl t = Some (if direction t = Long then (x - entryPrice t) * size' t
                       else (entryPrice t - x) * size' t)"
  using importRow_closed_with_pnl[OF assms(1)] assms(2) by auto

lemma importRow_negative_exit:
  "importRow exampleMapping exampleHeaders rowWithNegativeExit =
     Inr (\<lparr>date = 1705363200000, asset = ''BTC/USDT'', direction = Long, entryPrice = 100,
           exitPrice = Some (- 5), size' = 1, pnl = Some (- 105), journal = [], analysis = None,
           stopLoss = None, takeProfit = None, leverage = Some []\<rparr>, StatusClosed)"
  by (simp add: row_defs exampleMapping_def exampleHeaders_def rowWithNegativeExit_def
      parseDate_examples csv_number_defs char_defs number_defs)

lemma importRow_blank_exit:
  "importRow exampleMapping exampleHeaders rowWithBlankExit = Inl (FieldEmpty ''Salida'')"
  by (simp add: row_defs exampleMapping_def exampleHeaders_def rowWithBlankExit_def
      parseDate_examples csv_number_defs char_defs number_defs)

lemma handleImport_nonpositive_exit:
  "handleImport exampleMapping exampleHeaders
     [rowWithZeroExit, rowWithBlankExit, rowWithNegativeExit] =
     [(\<lparr>date = 1705276800000, asset = ''BTC/USDT'', direction = Long, entryPrice = 100,
        exitPrice = Some 0, size' = 1, pnl = Some (- 100), journal = [], analysis = None,
        stopLoss = None, takeProfit = None, leverage = Some []\<rparr>, StatusClosed),
      (\<lparr>date = 1705363200000, asset = ''BTC/USDT'', direction = Long, entryPrice = 100,
        exitPrice = Some (- 5), size' = 1, pnl = Some (- 105), journal = [], analysis = None,
        stopLoss = None, takeProfit = None, leverage = Some []\<rparr>, StatusClosed)]"
  by (simp add: handleImport_def List.map_filter_simps importRow_zero_exit
      importRow_blank_exit importRow_negative_exit)

lemma paste_zero_exit:
  "handlePasteDataChange dateOfISOString lineWithZeroExit
     = AskOpenTrade (openTradeOfPaste pastedZeroExit 1705276800000) pastedZeroExit"
proof -
  have "parsePastedData dateOfISOString lineWithZeroExit = Some pastedZeroExit"
    by (simp add: parse_zero_exit pastedZeroExit_def)
  moreover have "pExitPrice pastedZeroExit = None \<or> (\<exists>x. pExitPrice pastedZeroExit = Some x \<and> x \<le> 0)"
    by (simp add: pastedZeroExit_def)
  moreover have "dateOfISOString (pDate pastedZeroExit) = Some 1705276800000"
    by (simp add: pastedZeroExit_def date_examples)
  ultimately show ?thesis by (rule paste_open_trade_stored(1))
qed

text \<open>
  Claim C7. The column-mapped import does not treat an exit price of zero or less as absent.
  The rows of a sheet with the exit prices 0 and -5 are imported as closed trades with that
  exit price and the pnl -100 and -105, and are stored so in the ledger of the scenario,
  as the trades 3 and 4. The quick-add line with the same record and the exit price 0 asks
  for an open trade, which is stored with the status open, no exit price and no pnl.
\<close>

theorem csv_import_keeps_nonpositive_exit:
  "handleImport exampleMapping exampleHeaders
     [rowWithZeroExit, rowWithBlankExit, rowWithNegativeExit] =
     [(\<lparr>date = 1705276800000, asset = ''BTC/USDT'', direction = Long, entryPrice = 100,
        exitPrice = Some 0, size' = 1, pnl = Some (- 100), journal = [], analysis = None,
        stopLoss = None, takeProfit = None, leverage = Some []\<rparr>, StatusClosed),
      (\<lparr>date = 1705363200000, asset = ''BTC/USDT'', direction = Long, entryPrice = 100,
        exitPrice = Some (- 5), size' = 1, pnl = Some (- 105), journal = [], analysis = None,
        stopLoss = None, takeProfit = None, leverage = Some []\<rparr>, StatusClosed)]
   \<and> map (\<lambda>t. (id' t, status t, exitPrice t, pnl t))
        (handleImportFromGoogleSheet
           (handleImport exampleMapping exampleHeaders
              [rowWithZeroExit, rowWithBlankExit, rowWithNegativeExit])
           scenarioLedger)
       = [(1, StatusClosed, Some 110, Some 10), (2, StatusClosed, Some 90, Some 20),
          (3, StatusClosed, Some 0, Some (- 100)), (4, StatusClosed, Some (- 5), Some (- 105))]
   \<and> handlePasteDataChange dateOfISOString lineWithZeroExit
       = AskOpenTrade (openTradeOfPaste pastedZeroExit 1705276800000) pastedZeroExit
   \<and> map (\<lambda>t. (id' t, status t, exitPrice t, pnl t))
        (handleOpenTrade (openTradeOfPaste pastedZeroExit 1705276800000) scenarioLedger)
       = [(1, StatusClosed, Some 110, Some 10), (2, StatusClosed, Some 90, Some 20),
          (3, StatusOpen, None, None)]"
proof (intro conjI)
  show "handleImport exampleMapping exampleHeaders
     [rowWithZeroExit, rowWithBlankExit, rowWithNegativeExit] =
     [(\<lparr>date = 1705276800000, asset = ''BTC/USDT'', direction = Long, entryPrice = 100,
        exitPrice = Some 0, size' = 1, pnl = Some (- 100), journal = [], analysis = None,
        stopLoss = None, takeProfit = None, leverage = Some []\<rparr>, StatusClosed),
      (\<lparr>date = 1705363200000, asset = ''BTC/USDT'', direction = Long, entryPrice = 100,
        exitPrice = Some (- 5), size' = 1, pnl = Some (- 105), journal = [], analysis = None,
        stopLoss = None, takeProfit = None, leverage = Some []\<rparr>, StatusClosed)]"
    by (rule handleImport_nonpositive_exit)
  show "map (\<lambda>t. (id' t, status t, exitPrice t, pnl t))
        (handleImportFromGoogleSheet
           (handleImport exampleMapping exampleHeaders
              [rowWithZeroExit, rowWithBlankExit, rowWithNegativeExit])
           scenarioLedger)
       = [(1, StatusClosed, Some 110, Some 10), (2, StatusClosed, Some 90, Some 20),
          (3, StatusClosed, Some 0, Some (- 100)), (4, StatusClosed, Some (- 5), Some (- 105))]"
    by (simp add: handleImport_nonpositive_exit handleImportFromGoogleSheet_def
        scenarioLedger_eq scenario_defs sortByDate_def renumber_def)
  show "handlePasteDataChange dateOfISOString lineWithZeroExit
       = AskOpenTrade (openTradeOfPaste pastedZeroExit 1705276800000) pastedZeroExit"
    by (rule paste_zero_exit)
  show "map (\<lambda>t. (id' t, status t, exitPrice t, pnl t))
        (handleOpenTrade (openTradeOfPaste pastedZeroExit 1705276800000) scenarioLedger)
       = [(1, StatusClosed, Some 110, Some 10), (2, StatusClosed, Some 90, Some 20),
          (3, StatusOpen, None, None)]"
    by (simp add: handleOpenTrade_def getNextId_def openTradeOfPaste_def pastedZeroExit_def
        scenarioLedger_eq scenario_defs sortByDate_def renumber_def)
qed
end
